theory Spec2Isabelle
  imports Main
begin

section \<open>JavaScript values\<close>

text \<open>
  The backend's replies reach the front-end through \<^verbatim>\<open>response.json()\<close> and
  \<^verbatim>\<open>JSON.parse\<close>, and TypeScript's interfaces are erased at run time, so every value the
  store holds is a JavaScript value. A number is kept as the text \<^verbatim>\<open>String(n)\<close> prints for
  it (the only things the code does with a number are to test it for truthiness and to
  print it). A string is a list of code units.
\<close>

datatype json =
    JUndefined
  | JNull
  | JBool bool
  | JNum string
  | JStr string
  | JArr "json list"
  | JObj "(string \<times> json) list"

text \<open>A thrown value: every throw of the code is an \<^verbatim>\<open>Error\<close> object, kept by its message.\<close>

datatype js_error = Error (message: string)

text \<open>ToBoolean.\<close>

fun truthy :: "json \<Rightarrow> bool" where
  "truthy JUndefined = False"
| "truthy JNull = False"
| "truthy (JBool b) = b"
| "truthy (JNum n) = (n \<noteq> ''0'' \<and> n \<noteq> ''NaN'')"
| "truthy (JStr s) = (s \<noteq> [])"
| "truthy (JArr xs) = True"
| "truthy (JObj kvs) = True"

text \<open>\<^verbatim>\<open>a || b\<close> and \<^verbatim>\<open>a ?? b\<close>.\<close>

definition js_or :: "json \<Rightarrow> json \<Rightarrow> json" where
  "js_or a b = (if truthy a then a else b)"

definition nullish :: "json \<Rightarrow> bool" where
  "nullish v = (v = JUndefined \<or> v = JNull)"

definition js_coalesce :: "json \<Rightarrow> json \<Rightarrow> json" where
  "js_coalesce a b = (if nullish a then b else a)"

fun comma_join :: "string list \<Rightarrow> string" where
  "comma_join [] = []"
| "comma_join [s] = s"
| "comma_join (s # t # ss) = s @ '','' @ comma_join (t # ss)"

text \<open>ToString, as a template literal and \<^verbatim>\<open>localStorage.setItem\<close> apply it.\<close>

fun js_String :: "json \<Rightarrow> string" where
  "js_String JUndefined = ''undefined''"
| "js_String JNull = ''null''"
| "js_String (JBool b) = (if b then ''true'' else ''false'')"
| "js_String (JNum n) = n"
| "js_String (JStr s) = s"
| "js_String (JArr xs) =
     comma_join (map (\<lambda>x. if x = JUndefined \<or> x = JNull then [] else js_String x) xs)"
| "js_String (JObj kvs) = ''[object Object]''"

text \<open>
  Reading the property \<^verbatim>\<open>v.name\<close>: a TypeError on \<^verbatim>\<open>null\<close> and \<^verbatim>\<open>undefined\<close>, the
  property's value on an object, \<^verbatim>\<open>undefined\<close> where there is none. None of the names the
  code reads is a built-in property of a string, a number, a boolean or an array.
\<close>

definition get_prop :: "json \<Rightarrow> string \<Rightarrow> js_error + json" where
  "get_prop v name =
     (case v of
        JUndefined \<Rightarrow>
          Inl (Error (''Cannot read properties of undefined (reading '' @ [CHR 0x27] @ name @ [CHR 0x27] @ '')''))
      | JNull \<Rightarrow>
          Inl (Error (''Cannot read properties of null (reading '' @ [CHR 0x27] @ name @ [CHR 0x27] @ '')''))
      | JObj kvs \<Rightarrow> Inr (case map_of kvs name of None \<Rightarrow> JUndefined | Some x \<Rightarrow> x)
      | _ \<Rightarrow> Inr JUndefined)"

text \<open>Optional chaining \<^verbatim>\<open>v?.name\<close>.\<close>

definition get_opt :: "json \<Rightarrow> string \<Rightarrow> json" where
  "get_opt v name =
     (case v of
        JObj kvs \<Rightarrow> (case map_of kvs name of None \<Rightarrow> JUndefined | Some x \<Rightarrow> x)
      | _ \<Rightarrow> JUndefined)"

definition digit_char :: "nat \<Rightarrow> char" where
  "digit_char d = char_of (of_char CHR ''0'' + d)"

fun show_nat :: "nat \<Rightarrow> string" where
  "show_nat n = (if n < 10 then [digit_char n] else show_nat (n div 10) @ [digit_char (n mod 10)])"

declare show_nat.simps [simp del]

section \<open>The browser and the backend\<close>

text \<open>
  What \<^verbatim>\<open>fetch\<close> is given: the URL and the fields of the init object the code sets. The
  body is either \<^verbatim>\<open>JSON.stringify(v)\<close>, kept as the \<open>v\<close> it is called with (a property
  whose value is \<^verbatim>\<open>undefined\<close> is left out of the text that is sent), or a multipart form
  holding one file.
\<close>

datatype body = Stringified json | FormData string

record http_request =
  url :: string
  http_method :: "string option"
  headers :: "string \<rightharpoonup> string"
  body :: "body option"

text \<open>The \<^verbatim>\<open>RequestInit\<close> a client method passes to \<^verbatim>\<open>request\<close>.\<close>

record request_init =
  init_method :: "string option"
  init_headers :: "string \<rightharpoonup> string"
  init_body :: "body option"

text \<open>
  A response: its status and what \<^verbatim>\<open>response.json()\<close> resolves to (or rejects with).
\<close>

record response =
  status :: nat
  json_body :: "js_error + json"

definition ok :: "response \<Rightarrow> bool" where
  "ok r = (200 \<le> status r \<and> status r \<le> 299)"

text \<open>
  What the code runs on and does not define: whether there is a \<^verbatim>\<open>window\<close>, the
  environment variable of the base URL, \<^verbatim>\<open>JSON.parse\<close> and \<^verbatim>\<open>JSON.stringify\<close>, and the
  backend, which answers a request (or makes \<^verbatim>\<open>fetch\<close> reject) as a function of the
  requests made before it.
\<close>

record platform =
  has_window :: bool
  NEXT_PUBLIC_API_URL :: "string option"
  JSON_parse :: "string \<Rightarrow> js_error + json"
  JSON_stringify :: "json \<Rightarrow> string"
  backend :: "http_request list \<Rightarrow> http_request \<Rightarrow> js_error + response"

definition API_BASE_URL :: "platform \<Rightarrow> string" where
  "API_BASE_URL p =
     (case NEXT_PUBLIC_API_URL p of
        None \<Rightarrow> ''http://localhost:8000''
      | Some u \<Rightarrow> if u = [] then ''http://localhost:8000'' else u)"

text \<open>
  What is observed of a run, in order: each \<^verbatim>\<open>fetch\<close>, each write of the loading flag, each
  toast by its title, and each completion callback of a view by its name.
\<close>

datatype event =
    Fetch http_request
  | SetIsLoading bool
  | Toast string
  | Callback string

fun requests_of :: "event list \<Rightarrow> http_request list" where
  "requests_of [] = []"
| "requests_of (Fetch r # es) = r # requests_of es"
| "requests_of (e # es) = requests_of es"

text \<open>
  The state of the tab: the six state variables of \<^verbatim>\<open>SessionProvider\<close>, the durable
  storage, the location, and the events so far.
\<close>

record world =
  sessionId :: json
  session :: json
  user :: json
  isLoading :: bool
  error :: json
  selectedSuggestions :: json
  localStorage :: "string \<rightharpoonup> string"
  href :: string
  trace :: "event list"

section \<open>Asynchronous functions\<close>

text \<open>
  An \<^verbatim>\<open>async\<close> function is run to its end: it takes the state and gives the value it
  resolves to, or the error it rejects with, and the state it leaves. Two actions never
  interleave in this model.
\<close>

type_synonym 'a async = "world \<Rightarrow> (js_error + 'a) \<times> world"

definition resolve :: "'a \<Rightarrow> 'a async" where
  "resolve a w = (Inr a, w)"

definition throw :: "js_error \<Rightarrow> 'a async" where
  "throw e w = (Inl e, w)"

definition await :: "'a async \<Rightarrow> ('a \<Rightarrow> 'b async) \<Rightarrow> 'b async" where
  "await m f w = (case m w of (Inl e, w') \<Rightarrow> (Inl e, w') | (Inr a, w') \<Rightarrow> f a w')"

definition try_catch :: "'a async \<Rightarrow> (js_error \<Rightarrow> 'a async) \<Rightarrow> 'a async" where
  "try_catch m h w = (case m w of (Inl e, w') \<Rightarrow> h e w' | (Inr a, w') \<Rightarrow> (Inr a, w'))"

text \<open>\<^verbatim>\<open>try { m } finally { c }\<close>, for a cleanup that completes normally.\<close>

definition try_finally :: "'a async \<Rightarrow> (world \<Rightarrow> world) \<Rightarrow> 'a async" where
  "try_finally m c w = (case m w of (r, w') \<Rightarrow> (r, c w'))"

text \<open>A statement that only changes the state.\<close>

definition exec :: "(world \<Rightarrow> world) \<Rightarrow> unit async" where
  "exec f w = (Inr (), f w)"

text \<open>A synchronous expression that may throw.\<close>

definition eval_js :: "js_error + 'a \<Rightarrow> 'a async" where
  "eval_js r w = (r, w)"

definition fetch :: "platform \<Rightarrow> http_request \<Rightarrow> response async" where
  "fetch p req w =
     (backend p (requests_of (trace w)) req, w\<lparr>trace := trace w @ [Fetch req]\<rparr>)"

definition localStorage_getItem :: "string \<Rightarrow> world \<Rightarrow> json" where
  "localStorage_getItem k w = (case localStorage w k of None \<Rightarrow> JNull | Some s \<Rightarrow> JStr s)"

definition localStorage_setItem :: "string \<Rightarrow> json \<Rightarrow> world \<Rightarrow> world" where
  "localStorage_setItem k v w = w\<lparr>localStorage := (localStorage w)(k \<mapsto> js_String v)\<rparr>"

definition localStorage_removeItem :: "string \<Rightarrow> world \<Rightarrow> world" where
  "localStorage_removeItem k w = w\<lparr>localStorage := (localStorage w)(k := None)\<rparr>"

section \<open>The API client (lib/api-client.ts)\<close>

definition getUserId :: "platform \<Rightarrow> world \<Rightarrow> json" where
  "getUserId p w =
     (if \<not> has_window p then JNull
      else
        let userStr = localStorage_getItem ''user'' w in
        if \<not> truthy userStr then JNull
        else
          (case JSON_parse p (js_String userStr) of
             Inl e \<Rightarrow> JNull
           | Inr u \<Rightarrow> (case get_prop u ''id'' of Inl e \<Rightarrow> JNull | Inr i \<Rightarrow> i)))"

definition unauthorized :: "platform \<Rightarrow> world \<Rightarrow> world" where
  "unauthorized p w =
     (if has_window p
      then (localStorage_removeItem ''session_id'' (localStorage_removeItem ''user'' w))
             \<lparr>href := ''/login''\<rparr>
      else w)"

definition error_detail :: "response \<Rightarrow> string \<Rightarrow> json async" where
  "error_detail r unknown =
     await (eval_js (get_prop
              (case json_body r of
                 Inl e \<Rightarrow> JObj [(''detail'', JStr unknown)]
               | Inr v \<Rightarrow> v) ''detail''))
       (\<lambda>detail. throw (Error (js_String (js_or detail (JStr (''HTTP '' @ show_nat (status r)))))))"

text \<open>
  The headers \<^verbatim>\<open>request\<close> sends, and the request it hands to \<^verbatim>\<open>fetch\<close>. The
  \<^verbatim>\<open>catch\<close> of \<^verbatim>\<open>request\<close> writes to the console and throws the error again, so it is
  left out, like every other write to the console.
\<close>

definition caller_headers :: "request_init option \<Rightarrow> string \<rightharpoonup> string" where
  "caller_headers options = (case options of None \<Rightarrow> Map.empty | Some i \<Rightarrow> init_headers i)"

definition request_headers :: "platform \<Rightarrow> request_init option \<Rightarrow> world \<Rightarrow> string \<rightharpoonup> string" where
  "request_headers p options w =
     (let userId = getUserId p w;
          headers0 = [''Content-Type'' \<mapsto> ''application/json''] ++ caller_headers options
      in if truthy userId
         then headers0(''Authorization'' \<mapsto> ''Bearer '' @ js_String userId)
         else headers0)"

definition outgoing :: "platform \<Rightarrow> string \<Rightarrow> request_init option \<Rightarrow> world \<Rightarrow> http_request" where
  "outgoing p endpoint options w =
     \<lparr>url = API_BASE_URL p @ endpoint,
      http_method = (case options of None \<Rightarrow> None | Some i \<Rightarrow> init_method i),
      headers = request_headers p options w,
      body = (case options of None \<Rightarrow> None | Some i \<Rightarrow> init_body i)\<rparr>"

definition access_denied :: string where
  "access_denied =
     ''Access denied: You don'' @ [CHR 0x27] @ ''t have permission to access this resource''"

definition request :: "platform \<Rightarrow> string \<Rightarrow> request_init option \<Rightarrow> json async" where
  "request p endpoint options w =
     await (fetch p (outgoing p endpoint options w))
       (\<lambda>r.
          if status r = 401 then
            await (exec (unauthorized p)) (\<lambda>_. throw (Error ''Unauthorized''))
          else if status r = 403 then throw (Error access_denied)
          else if \<not> ok r then error_detail r ''Unknown error''
          else eval_js (json_body r))
       w"

text \<open>The init objects of the client's methods: none of them sets a header.\<close>

definition get_init :: "request_init option" where
  "get_init = None"

definition post_json :: "json \<Rightarrow> request_init option" where
  "post_json v =
     Some \<lparr>init_method = Some ''POST'', init_headers = Map.empty,
           init_body = Some (Stringified v)\<rparr>"

definition post_empty :: "request_init option" where
  "post_empty = Some \<lparr>init_method = Some ''POST'', init_headers = Map.empty, init_body = None\<rparr>"

definition delete_init :: "request_init option" where
  "delete_init = Some \<lparr>init_method = Some ''DELETE'', init_headers = Map.empty, init_body = None\<rparr>"

text \<open>A parameter with a default value takes it when the argument is \<^verbatim>\<open>undefined\<close>.\<close>

definition default_to :: "json \<Rightarrow> json \<Rightarrow> json" where
  "default_to d v = (if v = JUndefined then d else v)"

subsection \<open>One method per endpoint\<close>

definition apiClient_signup :: "platform \<Rightarrow> json \<Rightarrow> json \<Rightarrow> json async" where
  "apiClient_signup p email password =
     request p ''/api/auth/signup'' (post_json (JObj [(''email'', email), (''password'', password)]))"

definition apiClient_login :: "platform \<Rightarrow> json \<Rightarrow> json \<Rightarrow> json async" where
  "apiClient_login p email password =
     request p ''/api/auth/login'' (post_json (JObj [(''email'', email), (''password'', password)]))"

definition apiClient_logout :: "platform \<Rightarrow> json async" where
  "apiClient_logout p = request p ''/api/auth/logout'' post_empty"

definition apiClient_createSession :: "platform \<Rightarrow> json \<Rightarrow> json \<Rightarrow> json async" where
  "apiClient_createSession p llmProvider userId =
     request p ''/api/session/create''
       (post_json (JObj [(''llm_provider'', default_to (JStr ''Claude'') llmProvider),
                         (''user_id'', userId)]))"

definition apiClient_getSession :: "platform \<Rightarrow> json \<Rightarrow> json async" where
  "apiClient_getSession p sid = request p (''/api/session/'' @ js_String sid) get_init"

definition apiClient_deleteSession :: "platform \<Rightarrow> json \<Rightarrow> json async" where
  "apiClient_deleteSession p sid = request p (''/api/session/'' @ js_String sid) delete_init"

definition apiClient_setLLM :: "platform \<Rightarrow> json \<Rightarrow> json \<Rightarrow> json async" where
  "apiClient_setLLM p sid llmProvider =
     request p (''/api/session/'' @ js_String sid @ ''/llm'')
       (post_json (JObj [(''llm_provider'', llmProvider)]))"

definition apiClient_getAvailableLLMs :: "platform \<Rightarrow> json async" where
  "apiClient_getAvailableLLMs p = request p ''/api/llms/available'' get_init"

definition apiClient_getCategories :: "platform \<Rightarrow> json async" where
  "apiClient_getCategories p = request p ''/api/categories'' get_init"

definition apiClient_selectCategory :: "platform \<Rightarrow> json \<Rightarrow> json \<Rightarrow> json \<Rightarrow> json async" where
  "apiClient_selectCategory p sid category userIdea =
     request p (''/api/categories/select/'' @ js_String sid)
       (post_json (JObj [(''category'', category), (''user_idea'', userIdea)]))"

definition apiClient_getVisualSettingsOptions :: "platform \<Rightarrow> json async" where
  "apiClient_getVisualSettingsOptions p = request p ''/api/visual-settings/options'' get_init"

definition apiClient_saveVisualSettings :: "platform \<Rightarrow> json \<Rightarrow> json \<Rightarrow> json async" where
  "apiClient_saveVisualSettings p sid settings =
     request p (''/api/visual-settings/save/'' @ js_String sid) (post_json settings)"

definition apiClient_generateQuickPrompt :: "platform \<Rightarrow> json \<Rightarrow> json async" where
  "apiClient_generateQuickPrompt p sid =
     request p (''/api/visual-settings/generate-quick/'' @ js_String sid) post_empty"

definition apiClient_startChat ::
  "platform \<Rightarrow> json \<Rightarrow> json \<Rightarrow> json \<Rightarrow> json \<Rightarrow> json async" where
  "apiClient_startChat p sid category userIdea visualSettings =
     request p (''/api/chat/start/'' @ js_String sid)
       (post_json (JObj [(''category'', category), (''user_idea'', userIdea),
                         (''visual_settings'', visualSettings)]))"

definition apiClient_getChatMessages :: "platform \<Rightarrow> json \<Rightarrow> json async" where
  "apiClient_getChatMessages p sid = request p (''/api/chat/messages/'' @ js_String sid) get_init"

definition apiClient_getCurrentQuestion :: "platform \<Rightarrow> json \<Rightarrow> json async" where
  "apiClient_getCurrentQuestion p sid =
     request p (''/api/chat/current-question/'' @ js_String sid) get_init"

definition apiClient_getSuggestions :: "platform \<Rightarrow> json \<Rightarrow> json \<Rightarrow> json async" where
  "apiClient_getSuggestions p sid refresh =
     request p (''/api/suggestions/'' @ js_String sid @ ''?refresh=''
                  @ js_String (default_to (JNum ''0'') refresh)) get_init"

definition apiClient_toggleSuggestion :: "platform \<Rightarrow> json \<Rightarrow> json \<Rightarrow> json \<Rightarrow> json async" where
  "apiClient_toggleSuggestion p sid suggestion action =
     request p (''/api/suggestions/toggle/'' @ js_String sid)
       (post_json (JObj [(''suggestion'', suggestion),
                         (''action'', default_to (JStr ''toggle'') action)]))"

definition apiClient_getSelectedSuggestions :: "platform \<Rightarrow> json \<Rightarrow> json async" where
  "apiClient_getSelectedSuggestions p sid =
     request p (''/api/suggestions/selected/'' @ js_String sid) get_init"

definition apiClient_clearSuggestions :: "platform \<Rightarrow> json \<Rightarrow> json async" where
  "apiClient_clearSuggestions p sid =
     request p (''/api/suggestions/clear/'' @ js_String sid) delete_init"

definition apiClient_submitAnswer :: "platform \<Rightarrow> json \<Rightarrow> json \<Rightarrow> json async" where
  "apiClient_submitAnswer p sid answer =
     request p (''/api/answer/submit/'' @ js_String sid) (post_json (JObj [(''answer'', answer)]))"

definition apiClient_skipToGeneration :: "platform \<Rightarrow> json \<Rightarrow> json async" where
  "apiClient_skipToGeneration p sid = request p (''/api/chat/skip/'' @ js_String sid) post_empty"

definition apiClient_getFinalPrompt :: "platform \<Rightarrow> json \<Rightarrow> json async" where
  "apiClient_getFinalPrompt p sid = request p (''/api/prompt/final/'' @ js_String sid) get_init"

definition apiClient_refinePrompt :: "platform \<Rightarrow> json \<Rightarrow> json \<Rightarrow> json async" where
  "apiClient_refinePrompt p sid refinementInstruction =
     request p (''/api/prompt/refine/'' @ js_String sid)
       (post_json (JObj [(''refinement_instruction'', refinementInstruction)]))"

text \<open>\<^verbatim>\<open>getHistory\<close> takes the text of its \<^verbatim>\<open>URLSearchParams\<close> as it is.\<close>

definition apiClient_getHistory :: "platform \<Rightarrow> string \<Rightarrow> json async" where
  "apiClient_getHistory p query = request p (''/api/sessions/history?'' @ query) get_init"

definition apiClient_getHistoryItem :: "platform \<Rightarrow> json \<Rightarrow> json async" where
  "apiClient_getHistoryItem p promptId = request p (''/api/history/'' @ js_String promptId) get_init"

definition apiClient_deleteHistoryItem :: "platform \<Rightarrow> json \<Rightarrow> json async" where
  "apiClient_deleteHistoryItem p promptId =
     request p (''/api/history/'' @ js_String promptId) delete_init"

definition apiClient_clearHistory :: "platform \<Rightarrow> json async" where
  "apiClient_clearHistory p = request p ''/api/history'' delete_init"

definition apiClient_deleteSessionFile :: "platform \<Rightarrow> json \<Rightarrow> json \<Rightarrow> json async" where
  "apiClient_deleteSessionFile p sid fileIndex =
     request p (''/api/session/'' @ js_String sid @ ''/files/'' @ js_String fileIndex) delete_init"

text \<open>
  \<^verbatim>\<open>uploadFile\<close> calls \<^verbatim>\<open>fetch\<close> itself, with a method and a body and nothing else, and
  has no branch for 401 or 403.
\<close>

definition upload_request :: "platform \<Rightarrow> json \<Rightarrow> string \<Rightarrow> http_request" where
  "upload_request p sid file =
     \<lparr>url = API_BASE_URL p @ ''/api/session/'' @ js_String sid @ ''/upload'',
      http_method = Some ''POST'',
      headers = Map.empty,
      body = Some (FormData file)\<rparr>"

definition apiClient_uploadFile :: "platform \<Rightarrow> json \<Rightarrow> string \<Rightarrow> json async" where
  "apiClient_uploadFile p sid file =
     await (fetch p (upload_request p sid file))
       (\<lambda>r. if \<not> ok r then error_detail r ''Unknown upload error'' else eval_js (json_body r))"

section \<open>The session store (contexts/session-context.tsx)\<close>

text \<open>
  A callback made by \<^verbatim>\<open>useCallback\<close> reads \<^verbatim>\<open>sessionId\<close> and \<^verbatim>\<open>user\<close> as they were
  in the render that made it, not as they are when it runs: these captured values are
  the closure. The state setters and the durable storage are read and written as they
  are when the callback runs. The store's callbacks run in the browser, from effects and
  event handlers, where the durable storage exists.
\<close>

record closure =
  c_sessionId :: json
  c_user :: json

definition render :: "world \<Rightarrow> closure" where
  "render w = \<lparr>c_sessionId = sessionId w, c_user = user w\<rparr>"

definition setSessionId :: "json \<Rightarrow> world \<Rightarrow> world" where
  "setSessionId v w = w\<lparr>sessionId := v\<rparr>"

definition setSession :: "json \<Rightarrow> world \<Rightarrow> world" where
  "setSession v w = w\<lparr>session := v\<rparr>"

definition setUser :: "json \<Rightarrow> world \<Rightarrow> world" where
  "setUser v w = w\<lparr>user := v\<rparr>"

definition setIsLoading :: "bool \<Rightarrow> world \<Rightarrow> world" where
  "setIsLoading b w = w\<lparr>isLoading := b, trace := trace w @ [SetIsLoading b]\<rparr>"

definition setError :: "json \<Rightarrow> world \<Rightarrow> world" where
  "setError v w = w\<lparr>error := v\<rparr>"

definition setSelectedSuggestions :: "json \<Rightarrow> world \<Rightarrow> world" where
  "setSelectedSuggestions v w = w\<lparr>selectedSuggestions := v\<rparr>"

definition router_push :: "string \<Rightarrow> world \<Rightarrow> world" where
  "router_push path w = w\<lparr>href := path\<rparr>"

text \<open>Statements in a row, and one asynchronous call after another.\<close>

definition steps :: "(world \<Rightarrow> world) list \<Rightarrow> unit async" where
  "steps fs = exec (\<lambda>w. fold (\<lambda>f v. f v) fs w)"

definition seq :: "unit async \<Rightarrow> 'a async \<Rightarrow> 'a async" where
  "seq m n = await m (\<lambda>_. n)"

text \<open>An awaited call whose value is not used.\<close>

definition discard :: "'a async \<Rightarrow> unit async" where
  "discard m = await m (\<lambda>_. resolve ())"

text \<open>\<^verbatim>\<open>JSON.stringify(v)\<close> is \<^verbatim>\<open>undefined\<close> for \<^verbatim>\<open>undefined\<close>.\<close>

definition stringify :: "platform \<Rightarrow> json \<Rightarrow> json" where
  "stringify p v = (if v = JUndefined then JUndefined else JStr (JSON_stringify p v))"

definition error_message :: "js_error \<Rightarrow> string \<Rightarrow> json" where
  "error_message err fallback = js_or (JStr (message err)) (JStr fallback)"

definition handleError :: "js_error \<Rightarrow> world \<Rightarrow> world" where
  "handleError err = setError (error_message err ''An unexpected error occurred'')"

definition no_active_session :: js_error where
  "no_active_session = Error ''No active session''"

subsection \<open>Authentication, email and password\<close>

definition login :: "platform \<Rightarrow> json \<Rightarrow> json \<Rightarrow> unit async" where
  "login p email pass =
     seq (steps [setIsLoading True, setError JNull])
       (try_finally
          (try_catch
             (await (apiClient_login p email pass) (\<lambda>res.
              await (eval_js (get_prop res ''user'')) (\<lambda>u.
                steps [setUser u,
                       localStorage_setItem ''user'' (stringify p u),
                       setSessionId JNull,
                       setSession JNull,
                       localStorage_removeItem ''session_id''])))
             (\<lambda>err. seq (exec (setError (error_message err ''Login failed''))) (throw err)))
          (setIsLoading False))"

definition signup :: "platform \<Rightarrow> json \<Rightarrow> json \<Rightarrow> unit async" where
  "signup p email pass =
     seq (steps [setIsLoading True, setError JNull])
       (try_finally
          (try_catch
             (await (apiClient_signup p email pass) (\<lambda>res. resolve ()))
             (\<lambda>err. seq (exec (setError (error_message err ''Signup failed''))) (throw err)))
          (setIsLoading False))"

definition signOut :: "unit async" where
  "signOut = steps [localStorage_removeItem ''user'', setUser JNull, router_push ''/'']"

definition clearError :: "world \<Rightarrow> world" where
  "clearError = setError JNull"

subsection \<open>Session actions\<close>

definition refreshSession :: "platform \<Rightarrow> closure \<Rightarrow> json \<Rightarrow> unit async" where
  "refreshSession p cl id' =
     (let targetId = js_or id' (c_sessionId cl) in
      if \<not> truthy targetId then resolve ()
      else
        try_catch
          (await (apiClient_getSession p targetId) (\<lambda>sessionData.
           seq (exec (setSession sessionData))
          (await (eval_js (get_prop sessionData ''selected_chips'')) (\<lambda>chips.
             if truthy chips then exec (setSelectedSuggestions chips) else resolve ()))))
          (\<lambda>err. exec (handleError err)))"

definition initializeSession :: "platform \<Rightarrow> closure \<Rightarrow> json \<Rightarrow> unit async" where
  "initializeSession p cl llmProvider =
     seq (steps [setIsLoading True, setError JNull])
       (try_finally
          (try_catch
             (await (apiClient_createSession p (default_to (JStr ''Claude'') llmProvider)
                       (get_opt (c_user cl) ''id'')) (\<lambda>response.
              await (eval_js (get_prop response ''session_id'')) (\<lambda>sid.
              seq (steps [setSessionId sid, localStorage_setItem ''session_id'' sid])
                  (refreshSession p cl sid))))
             (\<lambda>err. exec (handleError err)))
          (setIsLoading False))"

definition joinSession :: "platform \<Rightarrow> closure \<Rightarrow> json \<Rightarrow> unit async" where
  "joinSession p cl id' =
     seq (steps [setSessionId id', localStorage_setItem ''session_id'' id'])
         (refreshSession p cl id')"

text \<open>
  \<^verbatim>\<open>selectCategory\<close> first settles the session id it works with: the stored one, else the
  captured one, else a new session's. The \<^verbatim>\<open>return\<close> in its first \<^verbatim>\<open>catch\<close> ends the
  action; \<open>None\<close> stands for it.
\<close>

definition create_on_demand :: "platform \<Rightarrow> closure \<Rightarrow> json option async" where
  "create_on_demand p cl =
     try_catch
       (await (apiClient_createSession p (JStr ''Claude'') (get_opt (c_user cl) ''id''))
          (\<lambda>response.
           await (eval_js (get_prop response ''session_id'')) (\<lambda>sid.
           seq (steps [setSessionId sid, localStorage_setItem ''session_id'' sid])
               (resolve (Some sid)))))
       (\<lambda>e. seq (exec (handleError e)) (resolve None))"

definition select_and_refresh :: "platform \<Rightarrow> closure \<Rightarrow> json \<Rightarrow> json \<Rightarrow> json \<Rightarrow> unit async" where
  "select_and_refresh p cl activeSessionId category userIdea =
     seq (steps [setIsLoading True, setError JNull])
       (try_finally
          (try_catch
             (await (apiClient_selectCategory p activeSessionId category userIdea) (\<lambda>_.
                refreshSession p cl activeSessionId))
             (\<lambda>err. exec (handleError err)))
          (setIsLoading False))"

definition selectCategory :: "platform \<Rightarrow> closure \<Rightarrow> json \<Rightarrow> json \<Rightarrow> unit async" where
  "selectCategory p cl category userIdea w =
     (let activeSessionId = js_or (localStorage_getItem ''session_id'' w) (c_sessionId cl) in
      await (if \<not> truthy activeSessionId then create_on_demand p cl
             else resolve (Some activeSessionId))
        (\<lambda>active. case active of
           None \<Rightarrow> resolve ()
         | Some sid \<Rightarrow> select_and_refresh p cl sid category userIdea)
        w)"

definition saveVisualSettings :: "platform \<Rightarrow> closure \<Rightarrow> json \<Rightarrow> unit async" where
  "saveVisualSettings p cl settings =
     (if \<not> truthy (c_sessionId cl) then throw no_active_session
      else
        seq (steps [setIsLoading True, setError JNull])
          (try_finally
             (try_catch
                (await (apiClient_saveVisualSettings p (c_sessionId cl) settings) (\<lambda>_.
                   refreshSession p cl JUndefined))
                (\<lambda>err. seq (exec (handleError err)) (throw err)))
             (setIsLoading False)))"

definition generateQuickPrompt :: "platform \<Rightarrow> closure \<Rightarrow> json async" where
  "generateQuickPrompt p cl =
     (if \<not> truthy (c_sessionId cl) then throw no_active_session
      else
        seq (steps [setIsLoading True, setError JNull])
          (try_finally
             (try_catch
                (await (apiClient_generateQuickPrompt p (c_sessionId cl)) (\<lambda>response.
                 seq (refreshSession p cl JUndefined)
                     (eval_js (get_prop response ''final_prompt''))))
                (\<lambda>err. seq (exec (handleError err)) (throw err)))
             (setIsLoading False)))"

definition startChat :: "platform \<Rightarrow> closure \<Rightarrow> json \<Rightarrow> json \<Rightarrow> json \<Rightarrow> unit async" where
  "startChat p cl category userIdea visualSettings =
     (if \<not> truthy (c_sessionId cl) then throw no_active_session
      else
        seq (steps [setIsLoading True, setError JNull])
          (try_finally
             (try_catch
                (await (apiClient_startChat p (c_sessionId cl) category userIdea visualSettings)
                   (\<lambda>_. refreshSession p cl JUndefined))
                (\<lambda>err. seq (exec (handleError err)) (throw err)))
             (setIsLoading False)))"

definition submitAnswer :: "platform \<Rightarrow> closure \<Rightarrow> json \<Rightarrow> json async" where
  "submitAnswer p cl answer =
     (if \<not> truthy (c_sessionId cl) then throw no_active_session
      else
        seq (steps [setIsLoading True, setError JNull])
          (try_finally
             (try_catch
                (await (apiClient_submitAnswer p (c_sessionId cl) answer) (\<lambda>response.
                 seq (refreshSession p cl JUndefined) (resolve response)))
                (\<lambda>err. seq (exec (handleError err)) (throw err)))
             (setIsLoading False)))"

definition skipToGeneration :: "platform \<Rightarrow> closure \<Rightarrow> unit async" where
  "skipToGeneration p cl =
     (if \<not> truthy (c_sessionId cl) then throw no_active_session
      else
        seq (steps [setIsLoading True, setError JNull])
          (try_finally
             (try_catch
                (await (apiClient_skipToGeneration p (c_sessionId cl)) (\<lambda>_.
                   refreshSession p cl JUndefined))
                (\<lambda>err. seq (exec (handleError err)) (throw err)))
             (setIsLoading False)))"

definition getCurrentQuestion :: "platform \<Rightarrow> closure \<Rightarrow> json async" where
  "getCurrentQuestion p cl =
     (if \<not> truthy (c_sessionId cl) then throw no_active_session
      else
        try_catch
          (apiClient_getCurrentQuestion p (c_sessionId cl))
          (\<lambda>err. seq (exec (handleError err)) (throw err)))"

definition getSuggestions :: "platform \<Rightarrow> closure \<Rightarrow> json \<Rightarrow> json async" where
  "getSuggestions p cl refresh =
     (if \<not> truthy (c_sessionId cl) then throw no_active_session
      else
        try_catch
          (await (apiClient_getSuggestions p (c_sessionId cl) (default_to (JNum ''0'') refresh))
             (\<lambda>response. eval_js (get_prop response ''suggestions'')))
          (\<lambda>err. seq (exec (handleError err)) (resolve (JArr []))))"

definition toggleSuggestion :: "platform \<Rightarrow> closure \<Rightarrow> json \<Rightarrow> unit async" where
  "toggleSuggestion p cl suggestion =
     (if \<not> truthy (c_sessionId cl) then throw no_active_session
      else
        try_catch
          (await (apiClient_toggleSuggestion p (c_sessionId cl) suggestion JUndefined)
             (\<lambda>response.
              await (eval_js (get_prop response ''selected_suggestions'')) (\<lambda>sel.
                exec (setSelectedSuggestions sel))))
          (\<lambda>err. exec (handleError err)))"

definition getFinalPrompt :: "platform \<Rightarrow> closure \<Rightarrow> json async" where
  "getFinalPrompt p cl =
     (if \<not> truthy (c_sessionId cl) then throw no_active_session
      else
        try_catch
          (apiClient_getFinalPrompt p (c_sessionId cl))
          (\<lambda>err. seq (exec (handleError err)) (throw err)))"

definition refinePrompt :: "platform \<Rightarrow> closure \<Rightarrow> json \<Rightarrow> json async" where
  "refinePrompt p cl instruction =
     (if \<not> truthy (c_sessionId cl) then throw no_active_session
      else
        seq (steps [setIsLoading True, setError JNull])
          (try_finally
             (try_catch
                (await (apiClient_refinePrompt p (c_sessionId cl) instruction) (\<lambda>response.
                 seq (refreshSession p cl JUndefined)
                     (eval_js (get_prop response ''refined_prompt''))))
                (\<lambda>err. seq (exec (handleError err)) (throw err)))
             (setIsLoading False)))"

subsection \<open>The variant that delegates sign-in to an identity provider\<close>

text \<open>
  The second \<^verbatim>\<open>SessionProvider\<close> of the sources has no \<^verbatim>\<open>login\<close>: the provider reports a
  sign-in to the listener the store registers with \<^verbatim>\<open>onAuthStateChange\<close>, and
  \<^verbatim>\<open>checkAuth\<close> reads the provider's session once on mount. Both only set \<^verbatim>\<open>user\<close>. Its
  \<^verbatim>\<open>initializeSession\<close> and \<^verbatim>\<open>selectCategory\<close> differ from the ones above; its other
  actions are the same text.
\<close>

definition checkAuth :: "json \<Rightarrow> world \<Rightarrow> world" where
  "checkAuth authSession = setUser (js_coalesce (get_opt authSession ''user'') JNull)"

definition onAuthStateChange :: "json \<Rightarrow> world \<Rightarrow> world" where
  "onAuthStateChange session' = setUser (js_coalesce (get_opt session' ''user'') JNull)"

definition provider_initializeSession :: "platform \<Rightarrow> closure \<Rightarrow> json \<Rightarrow> unit async" where
  "provider_initializeSession p cl llmProvider =
     seq (steps [setIsLoading True, setError JNull])
       (try_finally
          (try_catch
             (await (apiClient_createSession p (default_to (JStr ''Claude'') llmProvider)
                       (get_opt (c_user cl) ''id'')) (\<lambda>response.
              await (eval_js (get_prop response ''session_id'')) (\<lambda>sid.
              seq (steps [setSessionId sid, localStorage_setItem ''session_id'' sid])
                  (refreshSession p cl sid))))
             (\<lambda>err. exec (handleError err)))
          (setIsLoading False))"

text \<open>
  Here the id is the captured one alone. \<open>ini\<close> is the closure of the
  \<^verbatim>\<open>initializeSession\<close> this callback captured.
\<close>

definition provider_selectCategory ::
  "platform \<Rightarrow> closure \<Rightarrow> closure \<Rightarrow> json \<Rightarrow> json \<Rightarrow> unit async" where
  "provider_selectCategory p cl ini category userIdea =
     seq (if \<not> truthy (c_sessionId cl) then provider_initializeSession p ini JUndefined
          else resolve ())
       (let activeSessionId = c_sessionId cl in
        await (if \<not> truthy activeSessionId then create_on_demand p cl
               else resolve (Some activeSessionId))
          (\<lambda>active. case active of
             None \<Rightarrow> resolve ()
           | Some sid \<Rightarrow> select_and_refresh p cl sid category userIdea))"

subsection \<open>The store's actions, one by one\<close>

text \<open>
  The actions of the context value that make a call of the client, as one type, so that
  a statement can range over them. A \<^verbatim>\<open>void\<close> action resolves to \<^verbatim>\<open>undefined\<close>.
\<close>

datatype action =
    Login json json
  | Signup json json
  | InitializeSession json
  | RefreshSession json
  | SelectCategory json json
  | SaveVisualSettings json
  | GenerateQuickPrompt
  | StartChat json json json
  | SubmitAnswer json
  | SkipToGeneration
  | GetCurrentQuestion
  | GetSuggestions json
  | ToggleSuggestion json
  | GetFinalPrompt
  | RefinePrompt json

definition void :: "unit async \<Rightarrow> json async" where
  "void m = await m (\<lambda>_. resolve JUndefined)"

fun run :: "platform \<Rightarrow> closure \<Rightarrow> action \<Rightarrow> json async" where
  "run p cl (Login email pass) = void (login p email pass)"
| "run p cl (Signup email pass) = void (signup p email pass)"
| "run p cl (InitializeSession llmProvider) = void (initializeSession p cl llmProvider)"
| "run p cl (RefreshSession id') = void (refreshSession p cl id')"
| "run p cl (SelectCategory category userIdea) = void (selectCategory p cl category userIdea)"
| "run p cl (SaveVisualSettings settings) = void (saveVisualSettings p cl settings)"
| "run p cl GenerateQuickPrompt = generateQuickPrompt p cl"
| "run p cl (StartChat category userIdea visualSettings) =
     void (startChat p cl category userIdea visualSettings)"
| "run p cl (SubmitAnswer answer) = submitAnswer p cl answer"
| "run p cl SkipToGeneration = void (skipToGeneration p cl)"
| "run p cl GetCurrentQuestion = getCurrentQuestion p cl"
| "run p cl (GetSuggestions refresh) = getSuggestions p cl refresh"
| "run p cl (ToggleSuggestion suggestion) = void (toggleSuggestion p cl suggestion)"
| "run p cl GetFinalPrompt = getFinalPrompt p cl"
| "run p cl (RefinePrompt instruction) = refinePrompt p cl instruction"

text \<open>The session id \<^verbatim>\<open>selectCategory\<close> starts from.\<close>

definition active_id :: "closure \<Rightarrow> world \<Rightarrow> json" where
  "active_id cl w = js_or (localStorage_getItem ''session_id'' w) (c_sessionId cl)"

text \<open>The call of the client each action makes, as the action's text has it.\<close>

fun client_call :: "platform \<Rightarrow> closure \<Rightarrow> action \<Rightarrow> json async" where
  "client_call p cl (Login email pass) = apiClient_login p email pass"
| "client_call p cl (Signup email pass) = apiClient_signup p email pass"
| "client_call p cl (InitializeSession llmProvider) =
     apiClient_createSession p (default_to (JStr ''Claude'') llmProvider) (get_opt (c_user cl) ''id'')"
| "client_call p cl (RefreshSession id') = apiClient_getSession p (js_or id' (c_sessionId cl))"
| "client_call p cl (SelectCategory category userIdea) =
     (\<lambda>w. apiClient_selectCategory p (active_id cl w) category userIdea w)"
| "client_call p cl (SaveVisualSettings settings) =
     apiClient_saveVisualSettings p (c_sessionId cl) settings"
| "client_call p cl GenerateQuickPrompt = apiClient_generateQuickPrompt p (c_sessionId cl)"
| "client_call p cl (StartChat category userIdea visualSettings) =
     apiClient_startChat p (c_sessionId cl) category userIdea visualSettings"
| "client_call p cl (SubmitAnswer answer) = apiClient_submitAnswer p (c_sessionId cl) answer"
| "client_call p cl SkipToGeneration = apiClient_skipToGeneration p (c_sessionId cl)"
| "client_call p cl GetCurrentQuestion = apiClient_getCurrentQuestion p (c_sessionId cl)"
| "client_call p cl (GetSuggestions refresh) =
     apiClient_getSuggestions p (c_sessionId cl) (default_to (JNum ''0'') refresh)"
| "client_call p cl (ToggleSuggestion suggestion) =
     apiClient_toggleSuggestion p (c_sessionId cl) suggestion JUndefined"
| "client_call p cl GetFinalPrompt = apiClient_getFinalPrompt p (c_sessionId cl)"
| "client_call p cl (RefinePrompt instruction) =
     apiClient_refinePrompt p (c_sessionId cl) instruction"

text \<open>
  Whether the action gets as far as that call: the guard \<^verbatim>\<open>if (!sessionId) throw\<close> lets it
  through, \<^verbatim>\<open>refreshSession\<close> has an id to fetch, \<^verbatim>\<open>selectCategory\<close> has a session id at
  hand and need not create one.
\<close>

fun ready :: "closure \<Rightarrow> action \<Rightarrow> world \<Rightarrow> bool" where
  "ready cl (Login email pass) w = True"
| "ready cl (Signup email pass) w = True"
| "ready cl (InitializeSession llmProvider) w = True"
| "ready cl (RefreshSession id') w = truthy (js_or id' (c_sessionId cl))"
| "ready cl (SelectCategory category userIdea) w = truthy (active_id cl w)"
| "ready cl a w = truthy (c_sessionId cl)"

text \<open>The actions that write the loading flag, and the state in which they make their call.\<close>

fun sets_loading :: "action \<Rightarrow> bool" where
  "sets_loading (RefreshSession id') = False"
| "sets_loading GetCurrentQuestion = False"
| "sets_loading (GetSuggestions refresh) = False"
| "sets_loading (ToggleSuggestion suggestion) = False"
| "sets_loading GetFinalPrompt = False"
| "sets_loading a = True"

definition at_call :: "action \<Rightarrow> world \<Rightarrow> world" where
  "at_call a w = (if sets_loading a then setError JNull (setIsLoading True w) else w)"

text \<open>The actions whose \<^verbatim>\<open>catch\<close> ends in \<^verbatim>\<open>throw err\<close>.\<close>

fun rethrows :: "action \<Rightarrow> bool" where
  "rethrows (InitializeSession llmProvider) = False"
| "rethrows (RefreshSession id') = False"
| "rethrows (SelectCategory category userIdea) = False"
| "rethrows (GetSuggestions refresh) = False"
| "rethrows (ToggleSuggestion suggestion) = False"
| "rethrows a = True"

text \<open>What an action that does not rethrow resolves to after a failed call.\<close>

fun substitute :: "action \<Rightarrow> json" where
  "substitute (GetSuggestions refresh) = JArr []"
| "substitute a = JUndefined"

text \<open>The text stored when the error's message is empty.\<close>

fun fallback :: "action \<Rightarrow> string" where
  "fallback (Login email pass) = ''Login failed''"
| "fallback (Signup email pass) = ''Signup failed''"
| "fallback a = ''An unexpected error occurred''"

text \<open>The actions that call \<^verbatim>\<open>refreshSession\<close> after their call of the client.\<close>

fun refreshes :: "action \<Rightarrow> bool" where
  "refreshes (InitializeSession llmProvider) = True"
| "refreshes (SelectCategory category userIdea) = True"
| "refreshes (SaveVisualSettings settings) = True"
| "refreshes GenerateQuickPrompt = True"
| "refreshes (StartChat category userIdea visualSettings) = True"
| "refreshes (SubmitAnswer answer) = True"
| "refreshes SkipToGeneration = True"
| "refreshes (RefinePrompt instruction) = True"
| "refreshes a = False"

text \<open>
  The id \<^verbatim>\<open>refreshSession\<close> then fetches, given the reply \<open>r\<close> of the call:
  \<^verbatim>\<open>initializeSession\<close> passes \<^verbatim>\<open>response.session_id\<close> (and throws on a reply that is
  \<^verbatim>\<open>null\<close>), \<^verbatim>\<open>selectCategory\<close> passes its session id, the others pass nothing;
  \<^verbatim>\<open>refreshSession\<close> falls back on the captured id.
\<close>

fun refresh_target :: "closure \<Rightarrow> action \<Rightarrow> json \<Rightarrow> world \<Rightarrow> json" where
  "refresh_target cl (InitializeSession llmProvider) r w =
     (if nullish r then JUndefined else js_or (get_opt r ''session_id'') (c_sessionId cl))"
| "refresh_target cl (SelectCategory category userIdea) r w =
     js_or (active_id cl w) (c_sessionId cl)"
| "refresh_target cl a r w = c_sessionId cl"

definition is_loading_event :: "event \<Rightarrow> bool" where
  "is_loading_event e = (case e of SetIsLoading b \<Rightarrow> True | _ \<Rightarrow> False)"

text \<open>The calls that create a session, among the requests of a run.\<close>

definition is_create :: "platform \<Rightarrow> http_request \<Rightarrow> bool" where
  "is_create p r = (url r = API_BASE_URL p @ ''/api/session/create'' \<and> http_method r = Some ''POST'')"

definition creations :: "platform \<Rightarrow> world \<Rightarrow> nat" where
  "creations p w = length (filter (is_create p) (requests_of (trace w)))"

text \<open>
  What \<^verbatim>\<open>request\<close> resolves to when the backend answers \<open>req\<close> after the requests \<open>h\<close>:
  the body of a 2xx reply; \<open>None\<close> when \<^verbatim>\<open>request\<close> rejects.
\<close>

definition delivered :: "platform \<Rightarrow> http_request list \<Rightarrow> http_request \<Rightarrow> json option" where
  "delivered p h req =
     (case backend p h req of
        Inl e \<Rightarrow> None
      | Inr x \<Rightarrow>
          if ok x then (case json_body x of Inl e \<Rightarrow> None | Inr d \<Rightarrow> Some d) else None)"

text \<open>
  What follows the state \<open>w1\<close> in which an action's own call has succeeded, up to the
  state \<open>w'\<close> in which the action ends. With a truthy id to fetch: the next event is the
  GET of \<^verbatim>\<open>/api/session/{id}\<close>, no other request follows it, and the store's session is
  what that request delivers (it stays as it was when the request fails). With no truthy
  id: no request follows and the session stays as it was.
\<close>

definition refetched :: "platform \<Rightarrow> json \<Rightarrow> world \<Rightarrow> world \<Rightarrow> bool" where
  "refetched p target w1 w' =
     (if truthy target
      then \<exists>req es. trace w' = trace w1 @ Fetch req # es
             \<and> requests_of es = []
             \<and> url req = API_BASE_URL p @ ''/api/session/'' @ js_String target
             \<and> http_method req = None
             \<and> session w' = (case delivered p (requests_of (trace w1)) req of
                                Some d \<Rightarrow> d | None \<Rightarrow> session w1)
      else requests_of (trace w') = requests_of (trace w1) \<and> session w' = session w1)"

section \<open>The views\<close>

text \<open>
  What \<^verbatim>\<open>useSession()\<close> hands to a view: the store's state and actions of one render.
\<close>

record session_context =
  ctx_sessionId :: json
  ctx_session :: json
  ctx_initializeSession :: "json \<Rightarrow> unit async"
  ctx_selectCategory :: "json \<Rightarrow> json \<Rightarrow> unit async"
  ctx_generateQuickPrompt :: "json async"
  ctx_startChat :: "json \<Rightarrow> json \<Rightarrow> json \<Rightarrow> unit async"

definition useSession :: "platform \<Rightarrow> world \<Rightarrow> session_context" where
  "useSession p w =
     \<lparr>ctx_sessionId = sessionId w,
      ctx_session = session w,
      ctx_initializeSession = initializeSession p (render w),
      ctx_selectCategory = selectCategory p (render w),
      ctx_generateQuickPrompt = generateQuickPrompt p (render w),
      ctx_startChat = startChat p (render w)\<rparr>"





definition lower_char :: "char \<Rightarrow> char" where
  "lower_char c =
     (let n = (of_char c :: nat)
      in if (65 \<le> n \<and> n \<le> 90) \<or> (192 \<le> n \<and> n \<le> 222 \<and> n \<noteq> 215) then char_of (n + 32) else c)"

definition toLowerCase :: "string \<Rightarrow> string" where
  "toLowerCase s = map lower_char s"

subsection \<open>CategorySelector\<close>



subsection \<open>GeneratePanel\<close>

datatype mode = quick | advanced



definition cleared_settings :: json where
  "cleared_settings =
     JObj [(''aspect_ratio'', JUndefined),
           (''color_palette'', JUndefined),
           (''camera_settings'', JUndefined),
           (''image_purpose'', JUndefined)]"


subsection \<open>The pages\<close>

datatype step = landing | category | generate | chat | final

record home =
  currentStep :: step
  isInitializing :: bool

definition placeholderIdea :: "string \<Rightarrow> string" where
  "placeholderIdea categoryName = ''Create a '' @ toLowerCase categoryName @ '' style image''"

text \<open>The one-page wizard: it holds the step itself.\<close>

definition wizard_handleCategorySelect ::
  "session_context \<Rightarrow> string \<Rightarrow> home \<Rightarrow> world \<Rightarrow> home \<times> world" where
  "wizard_handleCategorySelect ctx categoryName h w =
     (case seq (if \<not> truthy (ctx_sessionId ctx) then ctx_initializeSession ctx JUndefined
                else resolve ())
               (ctx_selectCategory ctx (JStr categoryName) (JStr (placeholderIdea categoryName)))
               w of
        (Inr _, w') \<Rightarrow> (h\<lparr>currentStep := generate, isInitializing := False\<rparr>, w')
      | (Inl err, w') \<Rightarrow> (h\<lparr>isInitializing := False\<rparr>, w'))"

definition wizard_handleStartNew ::
  "platform \<Rightarrow> session_context \<Rightarrow> home \<Rightarrow> world \<Rightarrow> home \<times> world" where
  "wizard_handleStartNew p ctx h w =
     (h\<lparr>currentStep := landing\<rparr>,
      if truthy (ctx_sessionId ctx) then
        snd (try_catch
               (discard (apiClient_saveVisualSettings p (ctx_sessionId ctx) cleared_settings))
               (\<lambda>err. resolve ())
               w)
      else w)"

text \<open>The routed pages (app/page.tsx): the step is the route.\<close>

definition handleCategorySelect :: "session_context \<Rightarrow> string \<Rightarrow> world \<Rightarrow> world" where
  "handleCategorySelect ctx categoryName w =
     (case ctx_selectCategory ctx (JStr categoryName) (JStr (placeholderIdea categoryName)) w of
        (Inr _, w') \<Rightarrow>
          (let id' = localStorage_getItem ''session_id'' w'
           in if truthy id' then router_push (''/generate/'' @ js_String id') w' else w')
      | (Inl err, w') \<Rightarrow> w')"

definition handleStartNew :: "world \<Rightarrow> world" where
  "handleStartNew w = router_push ''/'' w"

section \<open>Runs and concrete states\<close>

text \<open>An asynchronous function that only adds to the events.\<close>

definition appends :: "'a async \<Rightarrow> bool" where
  "appends m = (\<forall>w. \<exists>es. trace (snd (m w)) = trace w @ es)"

text \<open>
  A backend that never answers 401, and one that answers every create-session call with
  a 2xx whose body is an object carrying a session id with a non-empty text.
\<close>

definition never_401 :: "platform \<Rightarrow> bool" where
  "never_401 p = (\<forall>h r. case backend p h r of Inl e \<Rightarrow> True | Inr x \<Rightarrow> status x \<noteq> 401)"

definition creates_sessions :: "platform \<Rightarrow> bool" where
  "creates_sessions p =
     (\<forall>h r. \<not> is_create p r \<or>
        (case backend p h r of
           Inl e \<Rightarrow> False
         | Inr x \<Rightarrow>
             ok x \<and> (case json_body x of
                        Inl e \<Rightarrow> False
                      | Inr v \<Rightarrow> \<not> nullish v \<and> js_String (get_opt v ''session_id'') \<noteq> [])))"

text \<open>
  \<^verbatim>\<open>selectCategory\<close> called again and again, each call awaited before the next is made
  (as every handler of the sources awaits it), each with the closure of the render that
  made it. Two calls started together, neither awaited, are not a run of this function.
\<close>

fun selectCategory_each :: "platform \<Rightarrow> (closure \<times> json \<times> json) list \<Rightarrow> world \<Rightarrow> world" where
  "selectCategory_each p [] w = w"
| "selectCategory_each p ((cl, name, userIdea) # calls) w =
     selectCategory_each p calls (snd (selectCategory p cl name userIdea w))"

text \<open>The durable storage holds a session id that is not the empty text.\<close>

definition has_stored_id :: "world \<Rightarrow> bool" where
  "has_stored_id w = (case localStorage w ''session_id'' of None \<Rightarrow> False | Some s \<Rightarrow> s \<noteq> [])"

text \<open>A user, the text of the user in the durable storage, and a parser that knows it.\<close>

definition quoted :: "string \<Rightarrow> string" where
  "quoted s = [CHR 0x22] @ s @ [CHR 0x22]"

definition ann :: json where
  "ann = JObj [(''id'', JStr ''u1''), (''email'', JStr ''ann@example.org'')]"

definition ann_text :: string where
  "ann_text = ''{'' @ quoted ''id'' @ '':'' @ quoted ''u1'' @ '','' @ quoted ''email'' @ '':''
                @ quoted ''ann@example.org'' @ ''}''"

definition parse_ann :: "string \<Rightarrow> js_error + json" where
  "parse_ann s = (if s = ann_text then Inr ann else Inl (Error ''Unexpected token''))"

definition stringify_ann :: "json \<Rightarrow> string" where
  "stringify_ann v = (if v = ann then ann_text else ''{}'')"

definition browser :: "(http_request list \<Rightarrow> http_request \<Rightarrow> js_error + response) \<Rightarrow> platform" where
  "browser b =
     \<lparr>has_window = True, NEXT_PUBLIC_API_URL = None, JSON_parse = parse_ann,
      JSON_stringify = stringify_ann, backend = b\<rparr>"

text \<open>Three backends: one that accepts everything, one that fails, one that answers 401.\<close>

definition reply :: json where
  "reply =
     JObj [(''success'', JBool True),
           (''session_id'', JStr ''s2''),
           (''user'', ann),
           (''selected_category'', JStr ''Logo''),
           (''selected_chips'', JArr []),
           (''selected_suggestions'', JArr [JStr ''neon lights'']),
           (''suggestions'', JArr [JStr ''neon lights'', JStr ''fog'']),
           (''final_prompt'', JStr ''A red sports car at dusk''),
           (''refined_prompt'', JStr ''A red sports car at dusk, wide angle'')]"

definition accepting :: "http_request list \<Rightarrow> http_request \<Rightarrow> js_error + response" where
  "accepting h r = Inr \<lparr>status = 200, json_body = Inr reply\<rparr>"

definition failing :: "http_request list \<Rightarrow> http_request \<Rightarrow> js_error + response" where
  "failing h r = Inr \<lparr>status = 500, json_body = Inr (JObj [(''detail'', JStr ''Database is down'')])\<rparr>"

definition rejecting :: "http_request list \<Rightarrow> http_request \<Rightarrow> js_error + response" where
  "rejecting h r = Inr \<lparr>status = 401, json_body = Inr (JObj [(''detail'', JStr ''Not signed in'')])\<rparr>"

text \<open>A tab just opened, and a tab where a guest has a session under way.\<close>

definition fresh :: world where
  "fresh =
     \<lparr>sessionId = JNull, session = JNull, user = JNull, isLoading = False, error = JNull,
      selectedSuggestions = JArr [], localStorage = Map.empty, href = ''/'', trace = []\<rparr>"

definition under_way :: world where
  "under_way =
     \<lparr>sessionId = JStr ''s1'',
      session = JObj [(''session_id'', JStr ''s1''), (''selected_category'', JStr ''Logo'')],
      user = JNull, isLoading = False, error = JNull,
      selectedSuggestions = JArr [], localStorage = [''session_id'' \<mapsto> ''s1''],
      href = ''/'', trace = []\<rparr>"

text \<open>The same tab with Ann signed in and her identity cached.\<close>

definition signed_in :: world where
  "signed_in = under_way\<lparr>user := ann, localStorage := [''session_id'' \<mapsto> ''s1'', ''user'' \<mapsto> ann_text]\<rparr>"

section \<open>Facts about the combinators and the client\<close>

lemmas async_defs = resolve_def throw_def await_def try_catch_def try_finally_def exec_def
  eval_js_def seq_def steps_def discard_def void_def

lemmas setter_defs = setSessionId_def setSession_def setUser_def setIsLoading_def setError_def
  setSelectedSuggestions_def localStorage_setItem_def localStorage_removeItem_def
  handleError_def

lemmas action_defs = login_def signup_def initializeSession_def refreshSession_def
  selectCategory_def select_and_refresh_def saveVisualSettings_def generateQuickPrompt_def
  startChat_def submitAnswer_def skipToGeneration_def getCurrentQuestion_def
  getSuggestions_def toggleSuggestion_def getFinalPrompt_def refinePrompt_def

lemma requests_of_append: "requests_of (xs @ ys) = requests_of xs @ requests_of ys"
  by (induction xs rule: requests_of.induct) simp_all

lemma request_trace:
  "trace (snd (request p endpoint options w)) = trace w @ [Fetch (outgoing p endpoint options w)]"
  by (simp add: request_def fetch_def async_defs error_detail_def unauthorized_def
        localStorage_removeItem_def split: sum.splits prod.splits)

lemma getUserId_malformed:
  assumes "localStorage w ''user'' = None
         \<or> (\<exists>s e. localStorage w ''user'' = Some s \<and> JSON_parse p s = Inl e)"
  shows "getUserId p w = JNull"
  using assms
  by (auto simp: getUserId_def localStorage_getItem_def Let_def)

section \<open>The client on a 401\<close>

text \<open>\<^verbatim>\<open>request\<close> rejects on a 401 with or without a \<^verbatim>\<open>window\<close>.\<close>

lemma request_rejects_401_anywhere:
  assumes "backend p (requests_of (trace w)) (outgoing p endpoint options w) = Inr r"
    and "status r = 401"
  shows "fst (request p endpoint options w) = Inl (Error ''Unauthorized'')"
  using assms by (simp add: request_def fetch_def async_defs)

text \<open>
  Claim C2. In a browser, whatever the endpoint and the init object, when the backend
  answers the request with status 401, \<^verbatim>\<open>request\<close> rejects with the error
  "Unauthorized" (it resolves to no value), and it leaves the durable storage without the
  cached user and without the session id, and the location at \<^verbatim>\<open>/login\<close>. (The source
  guards the three writes by \<^verbatim>\<open>typeof window !== 'undefined'\<close>; the durable storage and
  the location exist in a browser only.)
\<close>

theorem request_unauthorized:
  assumes "has_window p"
    and "backend p (requests_of (trace w)) (outgoing p endpoint options w) = Inr r"
    and "status r = 401"
  shows "fst (request p endpoint options w) = Inl (Error ''Unauthorized'')
       \<and> localStorage (snd (request p endpoint options w)) ''user'' = None
       \<and> localStorage (snd (request p endpoint options w)) ''session_id'' = None
       \<and> href (snd (request p endpoint options w)) = ''/login''"
  using assms
  by (simp add: request_def fetch_def async_defs unauthorized_def localStorage_removeItem_def)

theorem request_unauthorized_witness:
  "has_window (browser rejecting)
   \<and> fst (request (browser rejecting) ''/api/categories'' get_init signed_in) = Inl (Error ''Unauthorized'')
   \<and> localStorage (snd (request (browser rejecting) ''/api/categories'' get_init signed_in)) ''user'' = None
   \<and> localStorage (snd (request (browser rejecting) ''/api/categories'' get_init signed_in)) ''session_id'' = None
   \<and> href (snd (request (browser rejecting) ''/api/categories'' get_init signed_in)) = ''/login''"
  using request_unauthorized [of "browser rejecting" signed_in "''/api/categories''" get_init
      "\<lparr>status = 401, json_body = Inr (JObj [(''detail'', JStr ''Not signed in'')])\<rparr>"]
  by (simp add: browser_def rejecting_def)

section \<open>A cached identity that cannot be read\<close>

text \<open>
  Claim C10. When the slot of the cached user is absent, or holds a text that
  \<^verbatim>\<open>JSON.parse\<close> rejects, \<^verbatim>\<open>getUserId\<close> yields \<^verbatim>\<open>null\<close> and raises nothing; the request
  goes out all the same, with no Authorization header (the client's methods pass none of
  their own), and it resolves or rejects exactly as it does when no identity is cached.
\<close>

theorem malformed_identity_is_unauthenticated:
  assumes "localStorage w ''user'' = None
         \<or> (\<exists>s e. localStorage w ''user'' = Some s \<and> JSON_parse p s = Inl e)"
    and "caller_headers options ''Authorization'' = None"
  shows "getUserId p w = JNull
       \<and> headers (outgoing p endpoint options w) ''Authorization'' = None
       \<and> requests_of (trace (snd (request p endpoint options w)))
           = requests_of (trace w) @ [outgoing p endpoint options w]
       \<and> fst (request p endpoint options w)
           = fst (request p endpoint options (localStorage_removeItem ''user'' w))"
proof -
  have u: "getUserId p w = JNull"
    using assms(1) by (rule getUserId_malformed)
  have u': "getUserId p (localStorage_removeItem ''user'' w) = JNull"
    by (rule getUserId_malformed) (simp add: localStorage_removeItem_def)
  have h: "headers (outgoing p endpoint options w) ''Authorization'' = None"
    using assms(2) by (simp add: outgoing_def request_headers_def u map_add_def)
  have o: "outgoing p endpoint options (localStorage_removeItem ''user'' w)
             = outgoing p endpoint options w"
    by (simp add: outgoing_def request_headers_def u u')
  have t: "trace (localStorage_removeItem ''user'' w) = trace w"
    by (simp add: localStorage_removeItem_def)
  have r: "requests_of (trace (snd (request p endpoint options w)))
             = requests_of (trace w) @ [outgoing p endpoint options w]"
    by (simp add: request_trace requests_of_append)
  have f: "fst (request p endpoint options w)
             = fst (request p endpoint options (localStorage_removeItem ''user'' w))"
    by (simp add: request_def fetch_def async_defs error_detail_def o t
             split: sum.splits prod.splits)
  from u h r f show ?thesis by simp
qed

theorem malformed_identity_is_unauthenticated_witness:
  "localStorage (under_way\<lparr>localStorage := [''user'' \<mapsto> ''{oops'']\<rparr>) ''user'' = Some ''{oops''
   \<and> JSON_parse (browser accepting) ''{oops'' = Inl (Error ''Unexpected token'')
   \<and> getUserId (browser accepting) (under_way\<lparr>localStorage := [''user'' \<mapsto> ''{oops'']\<rparr>) = JNull
   \<and> headers (outgoing (browser accepting) ''/api/categories'' get_init
                 (under_way\<lparr>localStorage := [''user'' \<mapsto> ''{oops'']\<rparr>)) ''Authorization'' = None
   \<and> fst (request (browser accepting) ''/api/categories'' get_init
             (under_way\<lparr>localStorage := [''user'' \<mapsto> ''{oops'']\<rparr>)) = Inr reply"
proof -
  let ?w = "under_way\<lparr>localStorage := [''user'' \<mapsto> ''{oops'']\<rparr>"
  have a: "localStorage ?w ''user'' = Some ''{oops''" by simp
  have b: "JSON_parse (browser accepting) ''{oops'' = Inl (Error ''Unexpected token'')"
    by (simp add: browser_def parse_ann_def ann_text_def quoted_def)
  have c: "caller_headers get_init ''Authorization'' = None"
    by (simp add: caller_headers_def get_init_def)
  have d: "fst (request (browser accepting) ''/api/categories'' get_init
             (localStorage_removeItem ''user'' ?w)) = Inr reply"
    by (simp add: request_def fetch_def async_defs browser_def accepting_def ok_def)
  from a b have h: "localStorage ?w ''user'' = None
      \<or> (\<exists>s e. localStorage ?w ''user'' = Some s \<and> JSON_parse (browser accepting) s = Inl e)"
    by blast
  from malformed_identity_is_unauthenticated [OF h c, of "''/api/categories''"] a b d
  show ?thesis by simp
qed

section \<open>What an action does with a failed call\<close>

text \<open>
  Claim C4, as the code has it. When the call of the client that an action makes fails,
  the action stores the error's message in the shared error field (a fixed text when the
  message is empty: "Login failed", "Signup failed", else "An unexpected error
  occurred"). \<^verbatim>\<open>login\<close>, \<^verbatim>\<open>signup\<close>, \<^verbatim>\<open>saveVisualSettings\<close>, \<^verbatim>\<open>generateQuickPrompt\<close>,
  \<^verbatim>\<open>startChat\<close>, \<^verbatim>\<open>submitAnswer\<close>, \<^verbatim>\<open>skipToGeneration\<close>, \<^verbatim>\<open>getCurrentQuestion\<close>,
  \<^verbatim>\<open>getFinalPrompt\<close> and \<^verbatim>\<open>refinePrompt\<close> then reject with that same error;
  \<^verbatim>\<open>initializeSession\<close>, \<^verbatim>\<open>refreshSession\<close>, \<^verbatim>\<open>selectCategory\<close> and \<^verbatim>\<open>toggleSuggestion\<close>
  resolve normally, and \<^verbatim>\<open>getSuggestions\<close> resolves to the empty list.
\<close>

theorem failed_call_is_stored:
  assumes "ready cl a w"
    and "client_call p cl a (at_call a w) = (Inl e, w1)"
  shows "error (snd (run p cl a w)) = error_message e (fallback a)
       \<and> fst (run p cl a w) = (if rethrows a then Inl e else Inr (substitute a))"
  using assms
  by (cases a)
     (simp_all add: async_defs setter_defs action_defs at_call_def active_id_def
        localStorage_getItem_def no_active_session_def Let_def)

theorem failed_call_is_stored_witness:
  "ready (render under_way) (SaveVisualSettings cleared_settings) under_way
   \<and> fst (client_call (browser failing) (render under_way) (SaveVisualSettings cleared_settings)
            (at_call (SaveVisualSettings cleared_settings) under_way))
       = Inl (Error ''Database is down'')
   \<and> error (snd (run (browser failing) (render under_way) (SaveVisualSettings cleared_settings) under_way))
       = JStr ''Database is down''
   \<and> fst (run (browser failing) (render under_way) (SaveVisualSettings cleared_settings) under_way)
       = Inl (Error ''Database is down'')"
proof -
  let ?a = "SaveVisualSettings cleared_settings"
  let ?c = "client_call (browser failing) (render under_way) ?a (at_call ?a under_way)"
  have r: "ready (render under_way) ?a under_way"
    by (simp add: render_def under_way_def)
  have f: "fst ?c = Inl (Error ''Database is down'')"
    by (simp add: apiClient_saveVisualSettings_def request_def fetch_def async_defs browser_def
          failing_def ok_def error_detail_def get_prop_def js_or_def)
  then have c: "?c = (Inl (Error ''Database is down''), snd ?c)"
    by (simp add: prod_eq_iff)
  from failed_call_is_stored [OF r c] r f show ?thesis
    by (simp add: error_message_def js_or_def)
qed

theorem getSuggestions_resolves_after_failure:
  "fst (client_call (browser failing) (render under_way) (GetSuggestions JUndefined)
          (at_call (GetSuggestions JUndefined) under_way)) = Inl (Error ''Database is down'')
   \<and> fst (run (browser failing) (render under_way) (GetSuggestions JUndefined) under_way)
       = Inr (JArr [])"
  by (simp add: getSuggestions_def apiClient_getSuggestions_def request_def fetch_def async_defs
        browser_def failing_def ok_def error_detail_def get_prop_def js_or_def render_def
        under_way_def at_call_def)

section \<open>Events only accumulate\<close>

lemma appends_resolve: "appends (resolve a)"
  by (simp add: appends_def resolve_def)

lemma appends_throw: "appends (throw e)"
  by (simp add: appends_def throw_def)

lemma appends_eval_js: "appends (eval_js r)"
  by (simp add: appends_def eval_js_def)

lemma appends_exec: "(\<And>w. \<exists>es. trace (f w) = trace w @ es) \<Longrightarrow> appends (exec f)"
  by (simp add: appends_def exec_def)

lemma appends_await: "appends m \<Longrightarrow> (\<And>a. appends (f a)) \<Longrightarrow> appends (await m f)"
  unfolding appends_def await_def
proof
  fix w
  assume m: "\<forall>w. \<exists>es. trace (snd (m w)) = trace w @ es"
    and f: "\<And>a. \<forall>w. \<exists>es. trace (snd (f a w)) = trace w @ es"
  obtain r w' where mw: "m w = (r, w')" by (cases "m w")
  from m obtain es where es: "trace (snd (m w)) = trace w @ es" by blast
  show "\<exists>es. trace (snd (case m w of (Inl e, w') \<Rightarrow> (Inl e, w') | (Inr a, w') \<Rightarrow> f a w')) = trace w @ es"
  proof (cases r)
    case (Inl e)
    with mw es show ?thesis by simp
  next
    case (Inr a)
    from f obtain es' where "trace (snd (f a w')) = trace w' @ es'" by blast
    with mw es Inr show ?thesis by simp
  qed
qed

lemma appends_try_catch: "appends m \<Longrightarrow> (\<And>e. appends (h e)) \<Longrightarrow> appends (try_catch m h)"
  unfolding appends_def try_catch_def
proof
  fix w
  assume m: "\<forall>w. \<exists>es. trace (snd (m w)) = trace w @ es"
    and h: "\<And>e. \<forall>w. \<exists>es. trace (snd (h e w)) = trace w @ es"
  obtain r w' where mw: "m w = (r, w')" by (cases "m w")
  from m obtain es where es: "trace (snd (m w)) = trace w @ es" by blast
  show "\<exists>es. trace (snd (case m w of (Inl e, w') \<Rightarrow> h e w' | (Inr a, w') \<Rightarrow> (Inr a, w'))) = trace w @ es"
  proof (cases r)
    case (Inl e)
    from h obtain es' where "trace (snd (h e w')) = trace w' @ es'" by blast
    with mw es Inl show ?thesis by simp
  next
    case (Inr a)
    with mw es show ?thesis by simp
  qed
qed

lemma appends_seq: "appends m \<Longrightarrow> appends n \<Longrightarrow> appends (seq m n)"
  by (simp add: seq_def appends_await)

lemma appends_request: "appends (request p endpoint options)"
  by (simp add: appends_def request_trace)

lemma appends_setter:
  "\<exists>es. trace (setSession v w) = trace w @ es"
  "\<exists>es. trace (setSelectedSuggestions v w) = trace w @ es"
  "\<exists>es. trace (handleError e w) = trace w @ es"
  by (simp_all add: setter_defs)

lemma appends_refreshSession: "appends (refreshSession p cl i)"
  unfolding refreshSession_def Let_def apiClient_getSession_def
  by (intro appends_resolve appends_try_catch appends_await appends_seq appends_request
        appends_exec appends_eval_js appends_setter if_split[where P=appends, THEN iffD2] conjI impI)


lemma appends_try_finally:
  "appends m \<Longrightarrow> (\<And>w. \<exists>es. trace (c w) = trace w @ es) \<Longrightarrow> appends (try_finally m c)"
  unfolding appends_def try_finally_def
proof
  fix w
  assume m: "\<forall>w. \<exists>es. trace (snd (m w)) = trace w @ es"
    and c: "\<And>w. \<exists>es. trace (c w) = trace w @ es"
  obtain r w' where mw: "m w = (r, w')" by (cases "m w")
  from m obtain es where es: "trace (snd (m w)) = trace w @ es" by blast
  from c obtain es' where "trace (c w') = trace w' @ es'" by blast
  with mw es show "\<exists>es. trace (snd (case m w of (r, w') \<Rightarrow> (r, c w'))) = trace w @ es"
    by simp
qed

lemma appends_steps:
  "(\<And>f w. f \<in> set fs \<Longrightarrow> \<exists>es. trace (f w) = trace w @ es) \<Longrightarrow> appends (steps fs)"
proof (induction fs)
  case Nil
  then show ?case by (simp add: steps_def exec_def appends_def)
next
  case (Cons g gs)
  have tl: "appends (steps gs)" using Cons by simp
  show ?case
    unfolding appends_def steps_def exec_def
  proof
    fix w
    from Cons.prems [of g w] obtain es where es: "trace (g w) = trace w @ es" by auto
    from tl obtain es' where "trace (snd (steps gs (g w))) = trace (g w) @ es'"
      unfolding appends_def by blast
    with es show "\<exists>es. trace (snd (Inr (), fold (\<lambda>f. f) (g # gs) w)) = trace w @ es"
      by (simp add: steps_def exec_def)
  qed
qed

section \<open>The loading flag\<close>

lemma snd_void: "snd (void m w) = snd (m w)"
  by (cases "m w") (auto simp: void_def await_def resolve_def split: sum.splits)

lemma loading_bracket:
  assumes "appends X"
  shows "(\<exists>es. trace (snd (seq (steps [setIsLoading True, setError JNull])
                           (try_finally X (setIsLoading False)) w))
               = trace w @ SetIsLoading True # es @ [SetIsLoading False])
       \<and> isLoading (snd (seq (steps [setIsLoading True, setError JNull])
                           (try_finally X (setIsLoading False)) w)) = False"
proof -
  let ?w = "setError JNull (setIsLoading True w)"
  from assms obtain es where es: "trace (snd (X ?w)) = trace ?w @ es"
    unfolding appends_def by blast
  obtain r w' where x: "X ?w = (r, w')" by (cases "X ?w")
  have "seq (steps [setIsLoading True, setError JNull]) (try_finally X (setIsLoading False)) w
          = (r, setIsLoading False w')"
    using x by (simp add: seq_def steps_def exec_def await_def try_finally_def)
  moreover have "trace w' = trace w @ SetIsLoading True # es"
    using es x by (simp add: setter_defs)
  ultimately show ?thesis by (simp add: setter_defs)
qed

lemmas appends_intros = appends_resolve appends_throw appends_eval_js appends_await
  appends_try_catch appends_try_finally appends_seq appends_request appends_refreshSession

lemma appends_handle: "appends (exec (handleError e))" "appends (exec (setError v))"
  by (rule appends_exec, simp add: setter_defs)+

lemma appends_store_id:
  "appends (steps [setSessionId sid, localStorage_setItem ''session_id'' sid])"
  by (rule appends_steps) (auto simp: setter_defs)

lemma appends_login_steps:
  "appends (steps [setUser u, localStorage_setItem ''user'' v, setSessionId JNull,
                   setSession JNull, localStorage_removeItem ''session_id''])"
  by (rule appends_steps) (auto simp: setter_defs)

lemmas client_defs = apiClient_signup_def apiClient_login_def apiClient_createSession_def
  apiClient_getSession_def apiClient_selectCategory_def apiClient_saveVisualSettings_def
  apiClient_generateQuickPrompt_def apiClient_startChat_def apiClient_getCurrentQuestion_def
  apiClient_getSuggestions_def apiClient_toggleSuggestion_def apiClient_submitAnswer_def
  apiClient_skipToGeneration_def apiClient_getFinalPrompt_def apiClient_refinePrompt_def

lemma loading_actions:
  assumes "sets_loading a" and "ready cl a w"
  shows "(\<exists>es. trace (snd (run p cl a w)) = trace w @ SetIsLoading True # es @ [SetIsLoading False])
       \<and> isLoading (snd (run p cl a w)) = False"
proof (cases a)
  case (Login email pass)
  show ?thesis
    unfolding Login run.simps snd_void login_def client_defs
    by (rule loading_bracket) (intro appends_intros appends_handle appends_login_steps)
next
  case (Signup email pass)
  show ?thesis
    unfolding Signup run.simps snd_void signup_def client_defs
    by (rule loading_bracket) (intro appends_intros appends_handle)
next
  case (InitializeSession llm)
  show ?thesis
    unfolding InitializeSession run.simps snd_void initializeSession_def client_defs
    by (rule loading_bracket) (intro appends_intros appends_handle appends_store_id)
next
  case (SelectCategory c i)
  have "selectCategory p cl c i w = select_and_refresh p cl (active_id cl w) c i w"
    using assms(2) SelectCategory
    by (simp add: selectCategory_def active_id_def Let_def await_def resolve_def)
  then show ?thesis
    unfolding SelectCategory run.simps snd_void select_and_refresh_def client_defs
    by (simp only:) (rule loading_bracket, intro appends_intros appends_handle)
next
  case (SaveVisualSettings s)
  with assms(2) show ?thesis
    unfolding SaveVisualSettings run.simps snd_void saveVisualSettings_def client_defs
    by (simp only: ready.simps if_True if_False not_True_eq_False)
       (rule loading_bracket, intro appends_intros appends_handle)
next
  case GenerateQuickPrompt
  with assms(2) show ?thesis
    unfolding GenerateQuickPrompt run.simps generateQuickPrompt_def client_defs
    by (simp only: ready.simps if_True if_False not_True_eq_False)
       (rule loading_bracket, intro appends_intros appends_handle)
next
  case (StartChat c i v)
  with assms(2) show ?thesis
    unfolding StartChat run.simps snd_void startChat_def client_defs
    by (simp only: ready.simps if_True if_False not_True_eq_False)
       (rule loading_bracket, intro appends_intros appends_handle)
next
  case (SubmitAnswer x)
  with assms(2) show ?thesis
    unfolding SubmitAnswer run.simps submitAnswer_def client_defs
    by (simp only: ready.simps if_True if_False not_True_eq_False)
       (rule loading_bracket, intro appends_intros appends_handle)
next
  case SkipToGeneration
  with assms(2) show ?thesis
    unfolding SkipToGeneration run.simps snd_void skipToGeneration_def client_defs
    by (simp only: ready.simps if_True if_False not_True_eq_False)
       (rule loading_bracket, intro appends_intros appends_handle)
next
  case (RefinePrompt x)
  with assms(2) show ?thesis
    unfolding RefinePrompt run.simps refinePrompt_def client_defs
    by (simp only: ready.simps if_True if_False not_True_eq_False)
       (rule loading_bracket, intro appends_intros appends_handle)
qed (use assms(1) in simp_all)


lemma request_frame:
  assumes "request p endpoint options w = (r, w')"
  shows "isLoading w' = isLoading w \<and> sessionId w' = sessionId w \<and> session w' = session w
       \<and> user w' = user w \<and> error w' = error w
       \<and> selectedSuggestions w' = selectedSuggestions w
       \<and> trace w' = trace w @ [Fetch (outgoing p endpoint options w)]"
  using assms
  by (auto simp: request_def fetch_def async_defs error_detail_def unauthorized_def
        localStorage_removeItem_def split: sum.splits prod.splits if_splits)

lemma request_quiet:
  assumes "request p endpoint options w = (r, w')"
  shows "isLoading w' = isLoading w"
    and "filter is_loading_event (trace w') = filter is_loading_event (trace w)"
  using request_frame [OF assms] by (simp_all add: is_loading_event_def)

lemma quiet_actions:
  assumes "\<not> sets_loading a"
  shows "isLoading (snd (run p cl a w)) = isLoading w
       \<and> filter is_loading_event (trace (snd (run p cl a w))) = filter is_loading_event (trace w)"
proof (cases a)
  case (RefreshSession i)
  show ?thesis
    unfolding RefreshSession run.simps snd_void
    by (auto simp: refreshSession_def client_defs async_defs setter_defs Let_def
          split: sum.splits prod.splits dest: request_quiet)
next
  case GetCurrentQuestion
  show ?thesis
    unfolding GetCurrentQuestion run.simps
    by (auto simp: getCurrentQuestion_def client_defs async_defs setter_defs
          split: sum.splits prod.splits dest: request_quiet)
next
  case (GetSuggestions x)
  show ?thesis
    unfolding GetSuggestions run.simps
    by (auto simp: getSuggestions_def client_defs async_defs setter_defs
          split: sum.splits prod.splits dest: request_quiet)
next
  case (ToggleSuggestion x)
  show ?thesis
    unfolding ToggleSuggestion run.simps snd_void
    by (auto simp: toggleSuggestion_def client_defs async_defs setter_defs
          split: sum.splits prod.splits dest: request_quiet)
next
  case GetFinalPrompt
  show ?thesis
    unfolding GetFinalPrompt run.simps
    by (auto simp: getFinalPrompt_def client_defs async_defs setter_defs
          split: sum.splits prod.splits dest: request_quiet)
qed (use assms in simp_all)

text \<open>
  Claim C5, as the code has it. \<^verbatim>\<open>initializeSession\<close>, \<^verbatim>\<open>selectCategory\<close>,
  \<^verbatim>\<open>saveVisualSettings\<close>, \<^verbatim>\<open>generateQuickPrompt\<close>, \<^verbatim>\<open>startChat\<close>, \<^verbatim>\<open>submitAnswer\<close>,
  \<^verbatim>\<open>skipToGeneration\<close> and \<^verbatim>\<open>refinePrompt\<close> (and \<^verbatim>\<open>login\<close> and \<^verbatim>\<open>signup\<close>), once past
  the session guard, write \<^verbatim>\<open>true\<close> to the loading flag before anything else and
  \<^verbatim>\<open>false\<close> as the last thing they do, whether the call succeeded or failed, so the flag
  is false when they have returned or thrown. \<^verbatim>\<open>toggleSuggestion\<close> (like the reads and
  \<^verbatim>\<open>refreshSession\<close>) never writes the flag: it leaves it as it found it.
\<close>

theorem loading_flag_is_bracketed:
  assumes "ready cl a w"
  shows "if sets_loading a
         then (\<exists>es. trace (snd (run p cl a w))
                       = trace w @ SetIsLoading True # es @ [SetIsLoading False])
              \<and> isLoading (snd (run p cl a w)) = False
         else isLoading (snd (run p cl a w)) = isLoading w
              \<and> filter is_loading_event (trace (snd (run p cl a w)))
                  = filter is_loading_event (trace w)"
  using assms loading_actions [of a cl w p] quiet_actions [of a p cl w] by simp

theorem loading_flag_is_bracketed_witness:
  "ready (render under_way) (SaveVisualSettings cleared_settings) under_way
   \<and> sets_loading (SaveVisualSettings cleared_settings)
   \<and> (\<exists>es. trace (snd (run (browser accepting) (render under_way)
                          (SaveVisualSettings cleared_settings) under_way))
              = trace under_way @ SetIsLoading True # es @ [SetIsLoading False])
   \<and> isLoading (snd (run (browser accepting) (render under_way)
                       (SaveVisualSettings cleared_settings) under_way)) = False"
proof -
  have r: "ready (render under_way) (SaveVisualSettings cleared_settings) under_way"
    by (simp add: render_def under_way_def)
  from loading_flag_is_bracketed [OF r, of "browser accepting"] r show ?thesis by simp
qed

lemmas eval_defs = request_def fetch_def outgoing_def request_headers_def caller_headers_def
  getUserId_def unauthorized_def error_detail_def ok_def API_BASE_URL_def get_init_def
  post_json_def post_empty_def delete_init_def default_to_def get_prop_def get_opt_def
  js_or_def js_coalesce_def nullish_def localStorage_getItem_def error_message_def
  browser_def accepting_def failing_def rejecting_def reply_def ann_def ann_text_def
  quoted_def parse_ann_def stringify_ann_def fresh_def under_way_def signed_in_def render_def
  active_id_def at_call_def stringify_def

theorem toggleSuggestion_never_sets_loading:
  "fst (run (browser accepting) (render under_way) (ToggleSuggestion (JStr ''neon lights'')) under_way)
     = Inr JUndefined
   \<and> filter is_loading_event
        (trace (snd (run (browser accepting) (render under_way)
                       (ToggleSuggestion (JStr ''neon lights'')) under_way))) = []"
  by (simp add: toggleSuggestion_def apiClient_toggleSuggestion_def async_defs setter_defs
        eval_defs is_loading_event_def)

section \<open>The re-fetch after a call\<close>

lemma get_prop_get_opt: "\<not> nullish v \<Longrightarrow> get_prop v k = Inr (get_opt v k)"
  by (cases v) (simp_all add: nullish_def get_prop_def get_opt_def)

lemma request_Inr_delivered:
  assumes "request p endpoint options w = (Inr d, w')"
  shows "delivered p (requests_of (trace w)) (outgoing p endpoint options w) = Some d"
  using assms
  by (auto simp: delivered_def request_def fetch_def async_defs ok_def error_detail_def
        split: sum.splits if_splits)

lemma request_Inl_delivered:
  assumes "request p endpoint options w = (Inl e, w')"
  shows "delivered p (requests_of (trace w)) (outgoing p endpoint options w) = None"
  using assms
  by (auto simp: delivered_def request_def fetch_def async_defs ok_def error_detail_def
        split: sum.splits if_splits)

lemma refreshSession_effect:
  assumes "truthy (js_or i (c_sessionId cl))"
  shows "\<exists>req w'. refreshSession p cl i w = (Inr (), w')
           \<and> trace w' = trace w @ [Fetch req]
           \<and> url req = API_BASE_URL p @ ''/api/session/'' @ js_String (js_or i (c_sessionId cl))
           \<and> http_method req = None
           \<and> session w' = (case delivered p (requests_of (trace w)) req of
                              Some d \<Rightarrow> d | None \<Rightarrow> session w)"
proof -
  let ?ep = "''/api/session/'' @ js_String (js_or i (c_sessionId cl))"
  let ?req = "outgoing p ?ep get_init w"
  obtain r w1 where q: "request p ?ep get_init w = (r, w1)"
    by (cases "request p ?ep get_init w")
  from request_frame [OF q]
  have t: "trace w1 = trace w @ [Fetch ?req]" and s1: "session w1 = session w" by simp_all
  have u: "url ?req = API_BASE_URL p @ ?ep" and m: "http_method ?req = None"
    by (simp_all add: outgoing_def get_init_def)
  have "\<exists>w'. refreshSession p cl i w = (Inr (), w') \<and> trace w' = trace w1
          \<and> session w' = (case delivered p (requests_of (trace w)) ?req of
                              Some d \<Rightarrow> d | None \<Rightarrow> session w)"
  proof (cases r)
    case (Inl e)
    with q have "delivered p (requests_of (trace w)) ?req = None"
      by (simp add: request_Inl_delivered)
    with assms q Inl s1 show ?thesis
      by (simp add: refreshSession_def apiClient_getSession_def async_defs setter_defs Let_def)
  next
    case (Inr d)
    with q have "delivered p (requests_of (trace w)) ?req = Some d"
      by (simp add: request_Inr_delivered)
    with assms q Inr show ?thesis
      by (auto simp: refreshSession_def apiClient_getSession_def async_defs setter_defs Let_def
            split: sum.splits)
  qed
  with t u m show ?thesis by auto
qed

lemma refreshSession_skip:
  assumes "\<not> truthy (js_or i (c_sessionId cl))"
  shows "refreshSession p cl i w = (Inr (), w)"
  using assms by (simp add: refreshSession_def Let_def resolve_def)

lemma refresh_after_own_call:
  assumes "refreshes a"
    and "ready cl a w"
    and "client_call p cl a (at_call a w) = (Inr r, w1)"
  shows "if truthy (refresh_target cl a r w)
         then \<exists>req es. trace (snd (run p cl a w)) = trace w1 @ Fetch req # es
                \<and> requests_of es = []
                \<and> url req = API_BASE_URL p @ ''/api/session/''
                              @ js_String (refresh_target cl a r w)
                \<and> http_method req = None
                \<and> session (snd (run p cl a w))
                    = (case delivered p (requests_of (trace w1)) req of
                         Some d \<Rightarrow> d | None \<Rightarrow> session w1)
         else requests_of (trace (snd (run p cl a w))) = requests_of (trace w1)
              \<and> session (snd (run p cl a w)) = session w1"
proof (cases a)
  case (SaveVisualSettings s)
  from assms(2) have t: "truthy (js_or JUndefined (c_sessionId cl))"
    by (simp add: SaveVisualSettings js_or_def)
  from refreshSession_effect [OF t, of p w1]
  obtain req w' where "refreshSession p cl JUndefined w1 = (Inr (), w')"
    "trace w' = trace w1 @ [Fetch req]"
    "url req = API_BASE_URL p @ ''/api/session/'' @ js_String (js_or JUndefined (c_sessionId cl))"
    "http_method req = None"
    "session w' = (case delivered p (requests_of (trace w1)) req of
                     Some d \<Rightarrow> d | None \<Rightarrow> session w1)" by blast
  with assms(2,3) show ?thesis
    unfolding SaveVisualSettings run.simps snd_void
    by (auto simp: saveVisualSettings_def async_defs setter_defs at_call_def js_or_def split: sum.splits)
next
  case GenerateQuickPrompt
  from assms(2) have t: "truthy (js_or JUndefined (c_sessionId cl))"
    by (simp add: GenerateQuickPrompt js_or_def)
  from refreshSession_effect [OF t, of p w1]
  obtain req w' where "refreshSession p cl JUndefined w1 = (Inr (), w')"
    "trace w' = trace w1 @ [Fetch req]"
    "url req = API_BASE_URL p @ ''/api/session/'' @ js_String (js_or JUndefined (c_sessionId cl))"
    "http_method req = None"
    "session w' = (case delivered p (requests_of (trace w1)) req of
                     Some d \<Rightarrow> d | None \<Rightarrow> session w1)" by blast
  with assms(2,3) show ?thesis
    unfolding GenerateQuickPrompt run.simps
    by (auto simp: generateQuickPrompt_def async_defs setter_defs at_call_def js_or_def split: sum.splits)
next
  case (StartChat c i v)
  from assms(2) have t: "truthy (js_or JUndefined (c_sessionId cl))"
    by (simp add: StartChat js_or_def)
  from refreshSession_effect [OF t, of p w1]
  obtain req w' where "refreshSession p cl JUndefined w1 = (Inr (), w')"
    "trace w' = trace w1 @ [Fetch req]"
    "url req = API_BASE_URL p @ ''/api/session/'' @ js_String (js_or JUndefined (c_sessionId cl))"
    "http_method req = None"
    "session w' = (case delivered p (requests_of (trace w1)) req of
                     Some d \<Rightarrow> d | None \<Rightarrow> session w1)" by blast
  with assms(2,3) show ?thesis
    unfolding StartChat run.simps snd_void
    by (auto simp: startChat_def async_defs setter_defs at_call_def js_or_def split: sum.splits)
next
  case (SubmitAnswer x)
  from assms(2) have t: "truthy (js_or JUndefined (c_sessionId cl))"
    by (simp add: SubmitAnswer js_or_def)
  from refreshSession_effect [OF t, of p w1]
  obtain req w' where "refreshSession p cl JUndefined w1 = (Inr (), w')"
    "trace w' = trace w1 @ [Fetch req]"
    "url req = API_BASE_URL p @ ''/api/session/'' @ js_String (js_or JUndefined (c_sessionId cl))"
    "http_method req = None"
    "session w' = (case delivered p (requests_of (trace w1)) req of
                     Some d \<Rightarrow> d | None \<Rightarrow> session w1)" by blast
  with assms(2,3) show ?thesis
    unfolding SubmitAnswer run.simps
    by (auto simp: submitAnswer_def async_defs setter_defs at_call_def js_or_def split: sum.splits)
next
  case SkipToGeneration
  from assms(2) have t: "truthy (js_or JUndefined (c_sessionId cl))"
    by (simp add: SkipToGeneration js_or_def)
  from refreshSession_effect [OF t, of p w1]
  obtain req w' where "refreshSession p cl JUndefined w1 = (Inr (), w')"
    "trace w' = trace w1 @ [Fetch req]"
    "url req = API_BASE_URL p @ ''/api/session/'' @ js_String (js_or JUndefined (c_sessionId cl))"
    "http_method req = None"
    "session w' = (case delivered p (requests_of (trace w1)) req of
                     Some d \<Rightarrow> d | None \<Rightarrow> session w1)" by blast
  with assms(2,3) show ?thesis
    unfolding SkipToGeneration run.simps snd_void
    by (auto simp: skipToGeneration_def async_defs setter_defs at_call_def js_or_def split: sum.splits)
next
  case (RefinePrompt x)
  from assms(2) have t: "truthy (js_or JUndefined (c_sessionId cl))"
    by (simp add: RefinePrompt js_or_def)
  from refreshSession_effect [OF t, of p w1]
  obtain req w' where "refreshSession p cl JUndefined w1 = (Inr (), w')"
    "trace w' = trace w1 @ [Fetch req]"
    "url req = API_BASE_URL p @ ''/api/session/'' @ js_String (js_or JUndefined (c_sessionId cl))"
    "http_method req = None"
    "session w' = (case delivered p (requests_of (trace w1)) req of
                     Some d \<Rightarrow> d | None \<Rightarrow> session w1)" by blast
  with assms(2,3) show ?thesis
    unfolding RefinePrompt run.simps
    by (auto simp: refinePrompt_def async_defs setter_defs at_call_def js_or_def split: sum.splits)
next
  case (InitializeSession llm)
  show ?thesis
  proof (cases "nullish r")
    case True
    with assms(3) show ?thesis
      unfolding InitializeSession run.simps snd_void
      by (auto simp: initializeSession_def async_defs setter_defs at_call_def get_prop_def
            nullish_def requests_of_append)
  next
    case n: False
    let ?sid = "get_opt r ''session_id''"
    let ?w = "localStorage_setItem ''session_id'' ?sid (setSessionId ?sid w1)"
    have tw: "trace ?w = trace w1" and sw: "session ?w = session w1"
      by (simp_all add: setter_defs)
    show ?thesis
    proof (cases "truthy (js_or ?sid (c_sessionId cl))")
      case t: True
      from refreshSession_effect [OF t, of p ?w]
      obtain req w' where "refreshSession p cl ?sid ?w = (Inr (), w')"
        "trace w' = trace ?w @ [Fetch req]"
        "url req = API_BASE_URL p @ ''/api/session/'' @ js_String (js_or ?sid (c_sessionId cl))"
        "http_method req = None"
        "session w' = (case delivered p (requests_of (trace ?w)) req of
                         Some d \<Rightarrow> d | None \<Rightarrow> session ?w)" by blast
      with assms(3) n t show ?thesis
        unfolding InitializeSession run.simps snd_void tw sw
        by (auto simp: initializeSession_def async_defs setter_defs at_call_def get_prop_get_opt)
    next
      case f: False
      from refreshSession_skip [OF f, of p ?w] assms(3) n f show ?thesis
        unfolding InitializeSession run.simps snd_void
        by (auto simp: initializeSession_def async_defs setter_defs at_call_def get_prop_get_opt
              requests_of_append)
    qed
  qed
next
  case (SelectCategory c i)
  let ?sid = "active_id cl w"
  from assms(2) have a: "truthy ?sid" by (simp add: SelectCategory)
  then have t: "truthy (js_or ?sid (c_sessionId cl))" by (simp add: js_or_def)
  have s: "selectCategory p cl c i w = select_and_refresh p cl ?sid c i w"
    using a by (simp add: selectCategory_def active_id_def Let_def await_def resolve_def)
  have k: "active_id cl (setError JNull (setIsLoading True w)) = ?sid"
    by (simp add: active_id_def localStorage_getItem_def setter_defs)
  from refreshSession_effect [OF t, of p w1]
  obtain req w' where "refreshSession p cl ?sid w1 = (Inr (), w')"
    "trace w' = trace w1 @ [Fetch req]"
    "url req = API_BASE_URL p @ ''/api/session/'' @ js_String (js_or ?sid (c_sessionId cl))"
    "http_method req = None"
    "session w' = (case delivered p (requests_of (trace w1)) req of
                     Some d \<Rightarrow> d | None \<Rightarrow> session w1)" by blast
  with assms(3) k t show ?thesis
    unfolding SelectCategory run.simps snd_void s
    by (auto simp: select_and_refresh_def async_defs at_call_def setIsLoading_def)
qed (use assms(1) in simp_all)

lemma refresh_after_creation:
  assumes "\<not> truthy (active_id cl w)"
    and "create_on_demand p cl w = (Inr (Some sid), w0)"
    and "apiClient_selectCategory p sid c i (setError JNull (setIsLoading True w0)) = (Inr r, w1)"
  shows "if truthy sid
         then \<exists>req es. trace (snd (run p cl (SelectCategory c i) w)) = trace w1 @ Fetch req # es
                \<and> requests_of es = []
                \<and> url req = API_BASE_URL p @ ''/api/session/'' @ js_String sid
                \<and> http_method req = None
                \<and> session (snd (run p cl (SelectCategory c i) w))
                    = (case delivered p (requests_of (trace w1)) req of
                         Some d \<Rightarrow> d | None \<Rightarrow> session w1)
         else requests_of (trace (snd (run p cl (SelectCategory c i) w))) = requests_of (trace w1)
              \<and> session (snd (run p cl (SelectCategory c i) w)) = session w1"
proof -
  from assms(1) have nc: "\<not> truthy (c_sessionId cl)"
    by (auto simp: active_id_def js_or_def split: if_splits)
  have s: "selectCategory p cl c i w = select_and_refresh p cl sid c i w0"
    using assms(1,2) by (simp add: selectCategory_def active_id_def Let_def await_def)
  show ?thesis
  proof (cases "truthy sid")
    case True
    then have t: "truthy (js_or sid (c_sessionId cl))" and j: "js_or sid (c_sessionId cl) = sid"
      by (simp_all add: js_or_def)
    from refreshSession_effect [OF t, of p w1]
    obtain req w' where "refreshSession p cl sid w1 = (Inr (), w')"
      "trace w' = trace w1 @ [Fetch req]"
      "url req = API_BASE_URL p @ ''/api/session/'' @ js_String sid"
      "http_method req = None"
      "session w' = (case delivered p (requests_of (trace w1)) req of
                       Some d \<Rightarrow> d | None \<Rightarrow> session w1)"
      unfolding j by blast
    with assms(3) True show ?thesis
      unfolding run.simps snd_void s
      by (auto simp: select_and_refresh_def async_defs setter_defs)
  next
    case False
    with nc have f: "\<not> truthy (js_or sid (c_sessionId cl))" by (simp add: js_or_def)
    from refreshSession_skip [OF f, of p w1] assms(3) False show ?thesis
      unfolding run.simps snd_void s
      by (auto simp: select_and_refresh_def async_defs setter_defs requests_of_append)
  qed
qed

lemma own_call_one_request:
  "length (requests_of (trace (snd (client_call p cl a w))))
     = Suc (length (requests_of (trace w)))"
  by (cases a) (simp_all add: client_defs request_trace requests_of_append)

lemma requests_of_loading:
  "requests_of (trace (setError v (setIsLoading b w))) = requests_of (trace w)"
  "requests_of (trace (setIsLoading b w)) = requests_of (trace w)"
  by (simp_all add: setter_defs requests_of_append)

lemma no_request_beyond_own_call:
  assumes "\<not> refreshes a" and "ready cl a w"
  shows "requests_of (trace (snd (run p cl a w)))
           = requests_of (trace (snd (client_call p cl a (at_call a w))))"
proof (cases a)
  case (Login e pw)
  obtain r w1 where q: "apiClient_login p e pw (setError JNull (setIsLoading True w)) = (r, w1)"
    by (cases "apiClient_login p e pw (setError JNull (setIsLoading True w))")
  then show ?thesis
    unfolding Login run.simps snd_void
    by (cases r)
       (auto simp: login_def async_defs setter_defs at_call_def requests_of_append
          split: sum.splits)
next
  case (Signup e pw)
  obtain r w1 where q: "apiClient_signup p e pw (setError JNull (setIsLoading True w)) = (r, w1)"
    by (cases "apiClient_signup p e pw (setError JNull (setIsLoading True w))")
  then show ?thesis
    unfolding Signup run.simps snd_void
    by (cases r)
       (auto simp: signup_def async_defs setter_defs at_call_def requests_of_append
          split: sum.splits)
next
  case (RefreshSession i)
  obtain r w1 where q: "apiClient_getSession p (js_or i (c_sessionId cl)) w = (r, w1)"
    by (cases "apiClient_getSession p (js_or i (c_sessionId cl)) w")
  with assms(2) show ?thesis
    unfolding RefreshSession run.simps snd_void
    by (cases r)
       (auto simp: refreshSession_def async_defs setter_defs at_call_def Let_def
          split: sum.splits)
next
  case GetCurrentQuestion
  obtain r w1 where q: "apiClient_getCurrentQuestion p (c_sessionId cl) w = (r, w1)"
    by (cases "apiClient_getCurrentQuestion p (c_sessionId cl) w")
  with assms(2) show ?thesis
    unfolding GetCurrentQuestion run.simps
    by (cases r) (auto simp: getCurrentQuestion_def async_defs setter_defs at_call_def)
next
  case (GetSuggestions x)
  obtain r w1 where q:
    "apiClient_getSuggestions p (c_sessionId cl) (default_to (JNum ''0'') x) w = (r, w1)"
    by (cases "apiClient_getSuggestions p (c_sessionId cl) (default_to (JNum ''0'') x) w")
  with assms(2) show ?thesis
    unfolding GetSuggestions run.simps
    by (cases r)
       (auto simp: getSuggestions_def async_defs setter_defs at_call_def split: sum.splits)
next
  case (ToggleSuggestion x)
  obtain r w1 where q: "apiClient_toggleSuggestion p (c_sessionId cl) x JUndefined w = (r, w1)"
    by (cases "apiClient_toggleSuggestion p (c_sessionId cl) x JUndefined w")
  with assms(2) show ?thesis
    unfolding ToggleSuggestion run.simps snd_void
    by (cases r)
       (auto simp: toggleSuggestion_def async_defs setter_defs at_call_def split: sum.splits)
next
  case GetFinalPrompt
  obtain r w1 where q: "apiClient_getFinalPrompt p (c_sessionId cl) w = (r, w1)"
    by (cases "apiClient_getFinalPrompt p (c_sessionId cl) w")
  with assms(2) show ?thesis
    unfolding GetFinalPrompt run.simps
    by (cases r) (auto simp: getFinalPrompt_def async_defs setter_defs at_call_def)
qed (use assms(1) in simp_all)

text \<open>
  Claim C6, as the code has it. Once past its session guard, when its own call of the
  client has succeeded, each of \<^verbatim>\<open>saveVisualSettings\<close>, \<^verbatim>\<open>generateQuickPrompt\<close>,
  \<^verbatim>\<open>startChat\<close>, \<^verbatim>\<open>submitAnswer\<close>, \<^verbatim>\<open>skipToGeneration\<close>, \<^verbatim>\<open>refinePrompt\<close> and
  \<^verbatim>\<open>selectCategory\<close> makes exactly one more request before it returns, the GET of
  \<^verbatim>\<open>/api/session/{id}\<close> for the session id it works with, and the store's session becomes
  what that request delivers (it stays as it was when the request fails).
  \<^verbatim>\<open>initializeSession\<close> does so for the id its reply carries, or for the captured id when
  that one is falsy; with neither, and on a reply that is \<^verbatim>\<open>null\<close>, it makes no further
  request. \<^verbatim>\<open>selectCategory\<close> does so too when it has created the session on demand, for
  the id the creation's reply carries; when that id is falsy it makes no further request.
  An action that is none of these eight (\<^verbatim>\<open>toggleSuggestion\<close>, \<^verbatim>\<open>login\<close>, \<^verbatim>\<open>signup\<close>, the
  reads, \<^verbatim>\<open>refreshSession\<close> itself), once past its guard, makes one request, its own call,
  and no other.
\<close>

theorem success_is_followed_by_refresh:
  "(refreshes a \<and> ready cl a w \<and> client_call p cl a (at_call a w) = (Inr r, w1)
      \<longrightarrow> refetched p (refresh_target cl a r w) w1 (snd (run p cl a w)))
   \<and> (\<not> truthy (active_id cl2 w2) \<and> create_on_demand p cl2 w2 = (Inr (Some sid), w0)
      \<and> apiClient_selectCategory p sid c i (setError JNull (setIsLoading True w0)) = (Inr r2, w3)
      \<longrightarrow> refetched p sid w3 (snd (run p cl2 (SelectCategory c i) w2)))
   \<and> (\<not> refreshes b \<and> ready cl3 b w4
      \<longrightarrow> requests_of (trace (snd (run p cl3 b w4)))
            = requests_of (trace (snd (client_call p cl3 b (at_call b w4))))
          \<and> length (requests_of (trace (snd (client_call p cl3 b (at_call b w4)))))
            = Suc (length (requests_of (trace w4))))"
proof (intro conjI impI)
  assume "refreshes a \<and> ready cl a w \<and> client_call p cl a (at_call a w) = (Inr r, w1)"
  then show "refetched p (refresh_target cl a r w) w1 (snd (run p cl a w))"
    unfolding refetched_def using refresh_after_own_call [of a cl w p r w1] by blast
next
  assume "\<not> truthy (active_id cl2 w2) \<and> create_on_demand p cl2 w2 = (Inr (Some sid), w0)
      \<and> apiClient_selectCategory p sid c i (setError JNull (setIsLoading True w0)) = (Inr r2, w3)"
  then show "refetched p sid w3 (snd (run p cl2 (SelectCategory c i) w2))"
    unfolding refetched_def using refresh_after_creation [of cl2 w2 p sid w0 c i r2 w3] by blast
next
  assume "\<not> refreshes b \<and> ready cl3 b w4"
  then show "requests_of (trace (snd (run p cl3 b w4)))
            = requests_of (trace (snd (client_call p cl3 b (at_call b w4))))"
    using no_request_beyond_own_call [of b cl3 w4 p] by blast
next
  show "length (requests_of (trace (snd (client_call p cl3 b (at_call b w4)))))
            = Suc (length (requests_of (trace w4)))"
    by (cases "sets_loading b")
       (simp_all add: own_call_one_request at_call_def requests_of_loading)
qed

lemma delivered_accepting: "delivered (browser accepting) h req = Some reply"
  by (simp add: delivered_def browser_def accepting_def ok_def)

theorem success_is_followed_by_refresh_witness:
  "refreshes (SaveVisualSettings cleared_settings)
   \<and> ready (render under_way) (SaveVisualSettings cleared_settings) under_way
   \<and> fst (client_call (browser accepting) (render under_way) (SaveVisualSettings cleared_settings)
            (at_call (SaveVisualSettings cleared_settings) under_way)) = Inr reply
   \<and> (\<exists>req es.
         trace (snd (run (browser accepting) (render under_way)
                       (SaveVisualSettings cleared_settings) under_way))
           = trace (snd (client_call (browser accepting) (render under_way)
                           (SaveVisualSettings cleared_settings)
                           (at_call (SaveVisualSettings cleared_settings) under_way)))
             @ Fetch req # es
         \<and> requests_of es = []
         \<and> url req = ''http://localhost:8000/api/session/s1''
         \<and> http_method req = None)
   \<and> session (snd (run (browser accepting) (render under_way)
                     (SaveVisualSettings cleared_settings) under_way)) = reply
   \<and> \<not> truthy (active_id (render fresh) fresh)
   \<and> fst (create_on_demand (browser accepting) (render fresh) fresh) = Inr (Some (JStr ''s2''))
   \<and> fst (apiClient_selectCategory (browser accepting) (JStr ''s2'') (JStr ''Logo'')
            (JStr ''A fox as a logo'')
            (setError JNull (setIsLoading True
               (snd (create_on_demand (browser accepting) (render fresh) fresh))))) = Inr reply
   \<and> (\<exists>req es.
         trace (snd (run (browser accepting) (render fresh)
                       (SelectCategory (JStr ''Logo'') (JStr ''A fox as a logo'')) fresh))
           = trace (snd (apiClient_selectCategory (browser accepting) (JStr ''s2'') (JStr ''Logo'')
                           (JStr ''A fox as a logo'')
                           (setError JNull (setIsLoading True
                              (snd (create_on_demand (browser accepting) (render fresh) fresh))))))
             @ Fetch req # es
         \<and> requests_of es = []
         \<and> url req = ''http://localhost:8000/api/session/s2''
         \<and> http_method req = None)
   \<and> session (snd (run (browser accepting) (render fresh)
                     (SelectCategory (JStr ''Logo'') (JStr ''A fox as a logo'')) fresh)) = reply
   \<and> \<not> refreshes (ToggleSuggestion (JStr ''neon lights''))
   \<and> ready (render under_way) (ToggleSuggestion (JStr ''neon lights'')) under_way
   \<and> length (requests_of (trace (snd (run (browser accepting) (render under_way)
                                         (ToggleSuggestion (JStr ''neon lights'')) under_way)))) = 1"
proof -
  let ?p = "browser accepting"
  let ?a = "SaveVisualSettings cleared_settings"
  let ?cl = "render under_way"
  let ?call = "client_call ?p ?cl ?a (at_call ?a under_way)"
  let ?cod = "create_on_demand ?p (render fresh) fresh"
  let ?w0 = "snd ?cod"
  let ?sel = "apiClient_selectCategory ?p (JStr ''s2'') (JStr ''Logo'') (JStr ''A fox as a logo'')
                (setError JNull (setIsLoading True ?w0))"
  let ?b = "ToggleSuggestion (JStr ''neon lights'')"
  have a1: "refreshes ?a" by simp
  have a2: "ready ?cl ?a under_way" by (simp add: render_def under_way_def)
  have a3: "fst ?call = Inr reply"
    by (simp add: apiClient_saveVisualSettings_def request_def fetch_def async_defs browser_def
          accepting_def ok_def)
  then have a3': "?call = (Inr reply, snd ?call)" by (simp add: prod_eq_iff)
  have a4: "refresh_target ?cl ?a reply under_way = JStr ''s1''"
    by (simp add: render_def under_way_def)
  have b1: "\<not> truthy (active_id (render fresh) fresh)"
    by (simp add: active_id_def render_def fresh_def localStorage_getItem_def js_or_def)
  have b2: "fst ?cod = Inr (Some (JStr ''s2''))"
    by (simp add: create_on_demand_def apiClient_createSession_def async_defs setter_defs
          eval_defs)
  then have b2': "?cod = (Inr (Some (JStr ''s2'')), ?w0)" by (simp add: prod_eq_iff)
  have b3: "fst ?sel = Inr reply"
    by (simp add: apiClient_selectCategory_def request_def fetch_def async_defs browser_def
          accepting_def ok_def)
  then have b3': "?sel = (Inr reply, snd ?sel)" by (simp add: prod_eq_iff)
  have d1: "\<not> refreshes ?b" by simp
  have d2: "ready ?cl ?b under_way" by (simp add: render_def under_way_def)
  have z: "requests_of (trace under_way) = []" by (simp add: under_way_def)
  have u: "API_BASE_URL ?p = ''http://localhost:8000''"
    by (simp add: API_BASE_URL_def browser_def)
  note T = success_is_followed_by_refresh [of ?a ?cl under_way ?p reply "snd ?call"
      "render fresh" fresh "JStr ''s2''" ?w0 "JStr ''Logo''" "JStr ''A fox as a logo''" reply
      "snd ?sel" ?b ?cl under_way]
  from T a1 a2 a3'
  have "refetched ?p (refresh_target ?cl ?a reply under_way) (snd ?call)
          (snd (run ?p ?cl ?a under_way))"
    by blast
  then have A: "refetched ?p (JStr ''s1'') (snd ?call) (snd (run ?p ?cl ?a under_way))"
    by (simp only: a4)
  from T b1 b2' b3'
  have B: "refetched ?p (JStr ''s2'') (snd ?sel)
              (snd (run ?p (render fresh)
                     (SelectCategory (JStr ''Logo'') (JStr ''A fox as a logo'')) fresh))"
    by blast
  from T d1 d2
  have "requests_of (trace (snd (run ?p ?cl ?b under_way)))
          = requests_of (trace (snd (client_call ?p ?cl ?b (at_call ?b under_way))))
        \<and> length (requests_of (trace (snd (client_call ?p ?cl ?b (at_call ?b under_way)))))
          = Suc (length (requests_of (trace under_way)))"
    by blast
  then have D: "length (requests_of (trace (snd (run ?p ?cl ?b under_way)))) = 1"
    by (simp add: z)
  have A': "(\<exists>req es.
         trace (snd (run ?p ?cl ?a under_way)) = trace (snd ?call) @ Fetch req # es
         \<and> requests_of es = []
         \<and> url req = ''http://localhost:8000/api/session/s1''
         \<and> http_method req = None)
      \<and> session (snd (run ?p ?cl ?a under_way)) = reply"
    using A unfolding refetched_def by (auto simp: delivered_accepting u)
  have B': "(\<exists>req es.
         trace (snd (run ?p (render fresh)
                       (SelectCategory (JStr ''Logo'') (JStr ''A fox as a logo'')) fresh))
           = trace (snd ?sel) @ Fetch req # es
         \<and> requests_of es = []
         \<and> url req = ''http://localhost:8000/api/session/s2''
         \<and> http_method req = None)
      \<and> session (snd (run ?p (render fresh)
                     (SelectCategory (JStr ''Logo'') (JStr ''A fox as a logo'')) fresh)) = reply"
    using B unfolding refetched_def by (auto simp: delivered_accepting u)
  from A' B' D a1 a2 a3 b1 b2 b3 d1 d2 show ?thesis
    by (intro conjI) (simp_all only: simp_thms)
qed

theorem toggleSuggestion_does_not_refresh:
  "fst (run (browser accepting) (render under_way) (ToggleSuggestion (JStr ''neon lights'')) under_way)
     = Inr JUndefined
   \<and> map url (requests_of (trace (snd (run (browser accepting) (render under_way)
                       (ToggleSuggestion (JStr ''neon lights'')) under_way))))
       = [''http://localhost:8000/api/suggestions/toggle/s1'']"
  by (simp add: toggleSuggestion_def apiClient_toggleSuggestion_def async_defs setter_defs
        eval_defs)

section \<open>The session id across a sign-in\<close>

text \<open>
  With email and password, a login that succeeds leaves no session id behind, in memory
  or in the durable storage.
\<close>

lemma login_invalidates_session:
  assumes "apiClient_login p email pass (setError JNull (setIsLoading True w)) = (Inr res, w1)"
    and "\<not> nullish res"
  shows "fst (login p email pass w) = Inr ()
       \<and> sessionId (snd (login p email pass w)) = JNull
       \<and> session (snd (login p email pass w)) = JNull
       \<and> localStorage (snd (login p email pass w)) ''session_id'' = None"
  using assms
  by (simp add: login_def async_defs setter_defs get_prop_get_opt)

lemma login_invalidates_session_example:
  "fst (login (browser accepting) (JStr ''ann@example.org'') (JStr ''secret'') under_way) = Inr ()
   \<and> user (snd (login (browser accepting) (JStr ''ann@example.org'') (JStr ''secret'') under_way)) = ann
   \<and> sessionId (snd (login (browser accepting) (JStr ''ann@example.org'') (JStr ''secret'') under_way)) = JNull
   \<and> session (snd (login (browser accepting) (JStr ''ann@example.org'') (JStr ''secret'') under_way)) = JNull
   \<and> localStorage (snd (login (browser accepting) (JStr ''ann@example.org'') (JStr ''secret'') under_way))
        ''session_id'' = None"
  by (simp add: login_def apiClient_login_def async_defs setter_defs eval_defs)

text \<open>
  Claim C1, which the variant with an identity provider does not meet. A guest has
  session \<^verbatim>\<open>s1\<close> under way and Ann signs in: the listener sets the user and nothing else,
  the session id stays in memory and in the durable storage, and the next
  \<^verbatim>\<open>selectCategory\<close> is sent for \<^verbatim>\<open>s1\<close>.
\<close>

theorem provider_sign_in_keeps_session_id:
  "user (onAuthStateChange (JObj [(''user'', ann)]) under_way) = ann
   \<and> sessionId (onAuthStateChange (JObj [(''user'', ann)]) under_way) = JStr ''s1''
   \<and> session (onAuthStateChange (JObj [(''user'', ann)]) under_way) = session under_way
   \<and> localStorage (onAuthStateChange (JObj [(''user'', ann)]) under_way) ''session_id'' = Some ''s1''
   \<and> map url (requests_of (trace (snd
        (provider_selectCategory (browser accepting)
           (render (onAuthStateChange (JObj [(''user'', ann)]) under_way))
           (render (onAuthStateChange (JObj [(''user'', ann)]) under_way))
           (JStr ''Logo'') (JStr ''A fox as a logo'')
           (onAuthStateChange (JObj [(''user'', ann)]) under_way)))))
       = [''http://localhost:8000/api/categories/select/s1'',
          ''http://localhost:8000/api/session/s1'']"
  by (simp add: onAuthStateChange_def provider_selectCategory_def select_and_refresh_def
        refreshSession_def apiClient_selectCategory_def apiClient_getSession_def
        async_defs setter_defs eval_defs Let_def)

section \<open>Creating a session on demand\<close>

text \<open>
  With email and password, \<^verbatim>\<open>selectCategory\<close> reads the durable storage first. When the
  backend answers every create-session call with a session id and never answers 401
  (which would empty the storage), calls awaited one after another from a tab without a
  session create exactly one, however stale the closures of the later calls are. (Two
  calls started together would both read an empty storage; they are outside this lemma.)
\<close>

lemma request_world:
  assumes "never_401 p"
  shows "snd (request p endpoint options w)
           = w\<lparr>trace := trace w @ [Fetch (outgoing p endpoint options w)]\<rparr>"
proof -
  let ?b = "backend p (requests_of (trace w)) (outgoing p endpoint options w)"
  from assms have "case ?b of Inl e \<Rightarrow> True | Inr x \<Rightarrow> status x \<noteq> 401"
    unfolding never_401_def by blast
  then show ?thesis
    by (cases ?b) (simp_all add: request_def fetch_def async_defs error_detail_def
          split: sum.splits prod.splits)
qed

lemma creations_append:
  "creations p (w\<lparr>trace := trace w @ es\<rparr>)
     = creations p w + length (filter (is_create p) (requests_of es))"
  by (simp add: creations_def requests_of_append)

lemma not_create_select:
  "\<not> is_create p (outgoing p (''/api/categories/select/'' @ s) options w)"
  by (simp add: is_create_def outgoing_def)

lemma not_create_get:
  "\<not> is_create p (outgoing p endpoint get_init w)"
  by (simp add: is_create_def outgoing_def get_init_def)

lemma is_create_create:
  "is_create p (outgoing p ''/api/session/create'' (post_json b) w)"
  by (simp add: is_create_def outgoing_def post_json_def)

lemma refreshSession_keeps:
  assumes "never_401 p"
  shows "creations p (snd (refreshSession p cl i w)) = creations p w
       \<and> localStorage (snd (refreshSession p cl i w)) = localStorage w"
proof -
  let ?ep = "''/api/session/'' @ js_String (js_or i (c_sessionId cl))"
  obtain r w' where q: "request p ?ep get_init w = (r, w')"
    by (cases "request p ?ep get_init w")
  with request_world [OF assms, of ?ep get_init w]
  have w': "w' = w\<lparr>trace := trace w @ [Fetch (outgoing p ?ep get_init w)]\<rparr>" by simp
  have c: "creations p w' = creations p w" and l: "localStorage w' = localStorage w"
    unfolding w' by (simp_all add: creations_append not_create_get)
  show ?thesis
    using q c l
    by (auto simp: refreshSession_def apiClient_getSession_def async_defs setter_defs Let_def
          creations_def split: sum.splits)
qed

lemma select_and_refresh_keeps:
  assumes "never_401 p"
  shows "creations p (snd (select_and_refresh p cl sid c i w)) = creations p w
       \<and> localStorage (snd (select_and_refresh p cl sid c i w)) = localStorage w"
proof -
  let ?w0 = "setError JNull (setIsLoading True w)"
  let ?ep = "''/api/categories/select/'' @ js_String sid"
  let ?o = "post_json (JObj [(''category'', c), (''user_idea'', i)])"
  obtain r w1 where q: "request p ?ep ?o ?w0 = (r, w1)"
    by (cases "request p ?ep ?o ?w0")
  with request_world [OF assms, of ?ep ?o ?w0]
  have w1: "w1 = ?w0\<lparr>trace := trace ?w0 @ [Fetch (outgoing p ?ep ?o ?w0)]\<rparr>" by simp
  have nc: "\<not> is_create p (outgoing p ?ep ?o ?w0)"
    by (rule not_create_select)
  have c: "creations p w1 = creations p w" and l: "localStorage w1 = localStorage w"
    unfolding w1 using nc by (simp_all add: creations_def requests_of_append setter_defs)
  obtain r2 w2 where f: "refreshSession p cl sid w1 = (r2, w2)"
    by (cases "refreshSession p cl sid w1")
  with refreshSession_keeps [OF assms, of cl sid w1] c l
  have c2: "creations p w2 = creations p w" and l2: "localStorage w2 = localStorage w" by simp_all
  show ?thesis
    using q f c l c2 l2
    by (cases r; cases r2)
       (simp_all add: select_and_refresh_def apiClient_selectCategory_def async_defs setter_defs
          creations_def requests_of_append)
qed

lemma later_call_creates_nothing:
  assumes "never_401 p" and "has_stored_id w"
  shows "creations p (snd (selectCategory p cl c i w)) = creations p w
       \<and> has_stored_id (snd (selectCategory p cl c i w))"
proof -
  from assms(2) have t: "truthy (active_id cl w)"
    by (auto simp: has_stored_id_def active_id_def localStorage_getItem_def js_or_def
          split: option.splits)
  then have s: "selectCategory p cl c i w = select_and_refresh p cl (active_id cl w) c i w"
    by (simp add: selectCategory_def active_id_def Let_def await_def resolve_def)
  from select_and_refresh_keeps [OF assms(1), of cl "active_id cl w" c i w] assms(2)
  show ?thesis unfolding s by (simp add: has_stored_id_def)
qed

lemma later_calls_create_nothing:
  assumes "never_401 p" and "has_stored_id w"
  shows "creations p (selectCategory_each p calls w) = creations p w"
  using assms(2)
proof (induction calls arbitrary: w)
  case Nil
  then show ?case by simp
next
  case (Cons x xs)
  obtain cl c i where x: "x = (cl, c, i)" by (cases x)
  from later_call_creates_nothing [OF assms(1) Cons.prems, of cl c i]
  have k: "creations p (snd (selectCategory p cl c i w)) = creations p w"
    and h: "has_stored_id (snd (selectCategory p cl c i w))" by simp_all
  from Cons.IH [OF h] k show ?case by (simp add: x)
qed

lemma first_call_creates_one:
  assumes "never_401 p" and "creates_sessions p" and "\<not> truthy (active_id cl w)"
  shows "creations p (snd (selectCategory p cl c i w)) = creations p w + 1
       \<and> has_stored_id (snd (selectCategory p cl c i w))"
proof -
  let ?o = "post_json (JObj [(''llm_provider'', default_to (JStr ''Claude'') (JStr ''Claude'')),
                             (''user_id'', get_opt (c_user cl) ''id'')])"
  let ?req = "outgoing p ''/api/session/create'' ?o w"
  let ?b = "backend p (requests_of (trace w)) ?req"
  from assms(2) is_create_create [of p _ w]
  have "case ?b of Inl e \<Rightarrow> False
        | Inr x \<Rightarrow> ok x \<and> (case json_body x of Inl e \<Rightarrow> False
                     | Inr v \<Rightarrow> \<not> nullish v \<and> js_String (get_opt v ''session_id'') \<noteq> [])"
    unfolding creates_sessions_def by blast
  then obtain x v where b: "?b = Inr x" and okx: "ok x" and j: "json_body x = Inr v"
    and nv: "\<not> nullish v" and sv: "js_String (get_opt v ''session_id'') \<noteq> []"
    by (auto split: sum.splits)
  let ?w1 = "w\<lparr>trace := trace w @ [Fetch ?req]\<rparr>"
  have q: "request p ''/api/session/create'' ?o w = (Inr v, ?w1)"
    using b okx j by (simp add: request_def fetch_def async_defs ok_def)
  let ?sid = "get_opt v ''session_id''"
  let ?w2 = "localStorage_setItem ''session_id'' ?sid (setSessionId ?sid ?w1)"
  have cod: "create_on_demand p cl w = (Inr (Some ?sid), ?w2)"
    using q nv
    by (simp add: create_on_demand_def apiClient_createSession_def async_defs get_prop_get_opt)
  have s: "selectCategory p cl c i w = select_and_refresh p cl ?sid c i ?w2"
    using assms(3) cod by (simp add: selectCategory_def active_id_def Let_def await_def)
  have c2: "creations p ?w2 = creations p w + 1"
    using is_create_create [of p _ w]
    by (simp add: creations_def requests_of_append setter_defs)
  have h2: "has_stored_id ?w2"
    using sv by (simp add: has_stored_id_def setter_defs)
  from select_and_refresh_keeps [OF assms(1), of cl ?sid c i ?w2] c2 h2
  show ?thesis unfolding s by (simp add: has_stored_id_def)
qed

lemma selectCategory_creates_once:
  assumes "never_401 p" and "creates_sessions p" and "\<not> truthy (active_id cl w)"
  shows "creations p (selectCategory_each p ((cl, c, i) # calls) w) = creations p w + 1"
  using first_call_creates_one [OF assms, of c i]
    later_calls_create_nothing [OF assms(1), of "snd (selectCategory p cl c i w)" calls]
  by simp

text \<open>Three calls from the closure of the first render, against the accepting backend.\<close>

lemma accepting_never_401: "never_401 (browser accepting)"
  by (simp add: never_401_def browser_def accepting_def)

lemma accepting_creates_sessions: "creates_sessions (browser accepting)"
  by (simp add: creates_sessions_def browser_def accepting_def ok_def reply_def nullish_def
        get_opt_def)

lemma selectCategory_creates_once_example:
  "creations (browser accepting)
     (selectCategory_each (browser accepting)
        [(render fresh, JStr ''Logo'', JStr ''Create a logo style image''),
         (render fresh, JStr ''Logo'', JStr ''A fox as a logo''),
         (render fresh, JStr ''Poster'', JStr ''A fox on a poster'')]
        fresh) = 1"
proof -
  have a: "\<not> truthy (active_id (render fresh) fresh)"
    by (simp add: active_id_def render_def fresh_def localStorage_getItem_def js_or_def)
  have z: "creations (browser accepting) fresh = 0"
    by (simp add: creations_def fresh_def)
  from selectCategory_creates_once [OF accepting_never_401 accepting_creates_sessions a,
      of "JStr ''Logo''" "JStr ''Create a logo style image''"
         "[(render fresh, JStr ''Logo'', JStr ''A fox as a logo''),
           (render fresh, JStr ''Poster'', JStr ''A fox on a poster'')]"]
  show ?thesis unfolding z by simp
qed

text \<open>
  Claim C3, which the variant with an identity provider does not meet. In a tab just
  opened, with a backend that accepts everything, one call of its \<^verbatim>\<open>selectCategory\<close>
  makes two create-session requests: \<^verbatim>\<open>initializeSession\<close> makes one, and the captured
  \<^verbatim>\<open>sessionId\<close> is still \<^verbatim>\<open>null\<close> after it, so the callback makes another. And with
  \<^verbatim>\<open>s1\<close> in the durable storage and \<^verbatim>\<open>s0\<close> captured, its requests go to \<^verbatim>\<open>s0\<close>.
\<close>

theorem provider_selectCategory_creates_twice:
  "creations (browser accepting)
     (snd (provider_selectCategory (browser accepting) (render fresh) (render fresh)
             (JStr ''Logo'') (JStr ''Create a logo style image'') fresh)) = 2
   \<and> map url (requests_of (trace (snd
        (provider_selectCategory (browser accepting)
           (render (under_way\<lparr>sessionId := JStr ''s0''\<rparr>))
           (render (under_way\<lparr>sessionId := JStr ''s0''\<rparr>))
           (JStr ''Logo'') (JStr ''Create a logo style image'')
           (under_way\<lparr>sessionId := JStr ''s0''\<rparr>)))))
       = [''http://localhost:8000/api/categories/select/s0'',
          ''http://localhost:8000/api/session/s0'']"
  by (simp add: provider_selectCategory_def provider_initializeSession_def create_on_demand_def
        select_and_refresh_def refreshSession_def apiClient_selectCategory_def
        apiClient_getSession_def apiClient_createSession_def creations_def is_create_def
        async_defs setter_defs eval_defs Let_def)

section \<open>The Authorization header\<close>

text \<open>
  \<^verbatim>\<open>request\<close> attaches the bearer of the cached user's id whenever that id is truthy, and
  adds no Authorization header otherwise.
\<close>

lemma request_attaches_bearer:
  "headers (outgoing p endpoint options w) ''Authorization''
     = (if truthy (getUserId p w) then Some (''Bearer '' @ js_String (getUserId p w))
        else caller_headers options ''Authorization'')"
  by (simp add: outgoing_def request_headers_def Let_def map_add_def split: option.splits)

text \<open>
  Claim C7, which \<^verbatim>\<open>uploadFile\<close> does not meet. With Ann's identity cached, a request
  made through \<^verbatim>\<open>request\<close> carries \<^verbatim>\<open>Authorization: Bearer u1\<close>, and the upload carries
  no Authorization header.
\<close>

theorem uploadFile_sends_no_authorization:
  "getUserId (browser accepting) signed_in = JStr ''u1''
   \<and> headers (outgoing (browser accepting) ''/api/session/s1/files/0'' delete_init signed_in)
        ''Authorization'' = Some ''Bearer u1''
   \<and> map (\<lambda>r. headers r ''Authorization'')
        (requests_of (trace (snd (apiClient_uploadFile (browser accepting) (JStr ''s1'')
                                    ''photo.png'' signed_in)))) = [None]"
  by (simp add: apiClient_uploadFile_def upload_request_def async_defs eval_defs)

section \<open>Ideas that are too short\<close>





section \<open>Start new\<close>

text \<open>
  Claim C9, as the code has it. In the one-page wizard, with a session id at hand,
  "start new" makes exactly one request, the POST that saves the four visual settings
  as \<^verbatim>\<open>undefined\<close> for that session (so no request deletes the session), leaves the
  store's session id and session as they are, and sets the step to \<^verbatim>\<open>landing\<close>, also
  when the request fails. On the routed result page "start new" only navigates to \<^verbatim>\<open>/\<close>
  and makes no request.
\<close>

theorem start_new_saves_cleared_settings:
  assumes "truthy (ctx_sessionId ctx)"
  shows "currentStep (fst (wizard_handleStartNew p ctx h w)) = landing
       \<and> requests_of (trace (snd (wizard_handleStartNew p ctx h w)))
           = requests_of (trace w)
             @ [outgoing p (''/api/visual-settings/save/'' @ js_String (ctx_sessionId ctx))
                  (post_json cleared_settings) w]
       \<and> http_method (outgoing p (''/api/visual-settings/save/'' @ js_String (ctx_sessionId ctx))
                   (post_json cleared_settings) w) = Some ''POST''
       \<and> body (outgoing p (''/api/visual-settings/save/'' @ js_String (ctx_sessionId ctx))
                 (post_json cleared_settings) w) = Some (Stringified cleared_settings)
       \<and> sessionId (snd (wizard_handleStartNew p ctx h w)) = sessionId w
       \<and> session (snd (wizard_handleStartNew p ctx h w)) = session w
       \<and> requests_of (trace (handleStartNew w)) = requests_of (trace w)
       \<and> href (handleStartNew w) = ''/''"
proof -
  let ?ep = "''/api/visual-settings/save/'' @ js_String (ctx_sessionId ctx)"
  obtain r w' where q: "request p ?ep (post_json cleared_settings) w = (r, w')"
    by (cases "request p ?ep (post_json cleared_settings) w")
  have s: "snd (wizard_handleStartNew p ctx h w) = w'"
    using assms q
    by (cases r) (simp_all add: wizard_handleStartNew_def apiClient_saveVisualSettings_def async_defs)
  from request_frame [OF q] s show ?thesis
    by (simp add: requests_of_append wizard_handleStartNew_def outgoing_def post_json_def
          handleStartNew_def router_push_def)
qed

theorem start_new_saves_cleared_settings_witness:
  "truthy (ctx_sessionId (useSession (browser accepting) under_way))
   \<and> currentStep (fst (wizard_handleStartNew (browser accepting)
        (useSession (browser accepting) under_way)
        \<lparr>currentStep = final, isInitializing = False\<rparr> under_way)) = landing
   \<and> map (\<lambda>r. (url r, http_method r, body r))
        (requests_of (trace (snd (wizard_handleStartNew (browser accepting)
           (useSession (browser accepting) under_way)
           \<lparr>currentStep = final, isInitializing = False\<rparr> under_way))))
       = [(''http://localhost:8000/api/visual-settings/save/s1'', Some ''POST'',
           Some (Stringified cleared_settings))]
   \<and> session (snd (wizard_handleStartNew (browser accepting)
        (useSession (browser accepting) under_way)
        \<lparr>currentStep = final, isInitializing = False\<rparr> under_way)) = session under_way"
proof -
  have t: "truthy (ctx_sessionId (useSession (browser accepting) under_way))"
    by (simp add: useSession_def under_way_def)
  have u: "url (outgoing (browser accepting)
             (''/api/visual-settings/save/''
                @ js_String (ctx_sessionId (useSession (browser accepting) under_way)))
             (post_json cleared_settings) under_way)
           = ''http://localhost:8000/api/visual-settings/save/s1''"
    by (simp add: useSession_def eval_defs)
  have e: "requests_of (trace under_way) = []"
    by (simp add: under_way_def)
  from start_new_saves_cleared_settings [OF t, of "browser accepting"
      "\<lparr>currentStep = final, isInitializing = False\<rparr>" under_way] t u e
  show ?thesis by simp
qed

theorem routed_start_new_saves_nothing:
  "requests_of (trace (handleStartNew under_way)) = []
   \<and> href (handleStartNew under_way) = ''/''
   \<and> session (handleStartNew under_way)
       = JObj [(''session_id'', JStr ''s1''), (''selected_category'', JStr ''Logo'')]"
  by (simp add: handleStartNew_def router_push_def under_way_def)

end
